theory Spec2Isabelle
  imports Complex_Main
begin

section \<open>Python values and exceptions\<close>

text \<open>
  The program is a Flask service (\<^verbatim>\<open>infra/api.py\<close>) whose four view functions are wrapped
  by the decorators of \<^verbatim>\<open>utils/decorator.py\<close>. Exceptions are values: a computation returns
  \<open>Inl e\<close> where the Python raises \<open>e\<close>. An exception carries its class and its message
  (\<^verbatim>\<open>str(e)\<close>). Every handler of the program is \<^verbatim>\<open>except Exception\<close> or narrower, so the
  one fact about the class hierarchy that the code depends on is whether a class derives
  from \<^verbatim>\<open>Exception\<close>; \<open>BaseException_only\<close> stands for the classes that do not
  (\<^verbatim>\<open>KeyboardInterrupt\<close>, \<^verbatim>\<open>SystemExit\<close>, \<^verbatim>\<open>GeneratorExit\<close>).
\<close>

datatype exn_class =
    ClientError | ValueError | TypeError | OverflowError | KeyError | IndexError
  | AttributeError | ImportError | OtherException string | BaseException_only string

datatype exn = Exn (exn_cls: exn_class) (exn_msg: string)

fun type_name :: "exn_class \<Rightarrow> string" where
  "type_name ClientError = ''ClientError''"
| "type_name ValueError = ''ValueError''"
| "type_name TypeError = ''TypeError''"
| "type_name OverflowError = ''OverflowError''"
| "type_name KeyError = ''KeyError''"
| "type_name IndexError = ''IndexError''"
| "type_name AttributeError = ''AttributeError''"
| "type_name ImportError = ''ImportError''"
| "type_name (OtherException n) = n"
| "type_name (BaseException_only n) = n"

fun is_Exception :: "exn_class \<Rightarrow> bool" where
  "is_Exception (BaseException_only n) = False"
| "is_Exception c = True"

text \<open>
  Times are seconds since the epoch. Python's floats are idealised as rationals, with the
  three special values a JSON body can carry (\<^verbatim>\<open>NaN\<close>, \<^verbatim>\<open>Infinity\<close>, \<^verbatim>\<open>-Infinity\<close>);
  arithmetic on them is exact here, where Python rounds every result to the nearest float.
  \<open>PStamp t\<close> is the string \<^verbatim>\<open>datetime.isoformat()\<close> gives for the instant \<open>t\<close>,
  \<open>PDecimal i\<close> is a \<^verbatim>\<open>decimal.Decimal\<close> of integral value \<open>i\<close> (what the DynamoDB resource
  hands back for a number that was stored as an integer), and \<open>PResponse b\<close> is the Flask
  response object \<^verbatim>\<open>jsonify(b)\<close> builds (status 200).
\<close>

type_synonym time = rat

datatype pyfloat = Finite rat | PosInf | NegInf | NaN

datatype pyval =
    PNone | PBool bool | PInt int | PFloat pyfloat | PStr string
  | PList "pyval list" | PDict "(string \<times> pyval) list" | PTuple "pyval list"
  | PStamp time | PDecimal int | PResponse pyval

fun truthy :: "pyval \<Rightarrow> bool" where
  "truthy PNone = False"
| "truthy (PBool b) = b"
| "truthy (PInt i) = (i \<noteq> 0)"
| "truthy (PFloat f) = (f \<noteq> Finite 0)"
| "truthy (PStr s) = (s \<noteq> [])"
| "truthy (PList xs) = (xs \<noteq> [])"
| "truthy (PDict kvs) = (kvs \<noteq> [])"
| "truthy (PTuple xs) = (xs \<noteq> [])"
| "truthy (PStamp t) = True"
| "truthy (PDecimal i) = (i \<noteq> 0)"
| "truthy (PResponse b) = True"

definition jsonify :: "(string \<times> pyval) list \<Rightarrow> pyval" where
  "jsonify d = PResponse (PDict d)"

text \<open>\<^verbatim>\<open>d.get(k)\<close> and \<^verbatim>\<open>d[k]\<close> on a dict, \<^verbatim>\<open>d.get(k, default)\<close>.\<close>

definition dict_get :: "(string \<times> pyval) list \<Rightarrow> string \<Rightarrow> pyval" where
  "dict_get d k = (case map_of d k of None \<Rightarrow> PNone | Some v \<Rightarrow> v)"

definition dict_get_default :: "(string \<times> pyval) list \<Rightarrow> string \<Rightarrow> pyval \<Rightarrow> pyval" where
  "dict_get_default d k dflt = (case map_of d k of None \<Rightarrow> dflt | Some v \<Rightarrow> v)"

definition getitem :: "(string \<times> pyval) list \<Rightarrow> string \<Rightarrow> exn + pyval" where
  "getitem d k = (case map_of d k of None \<Rightarrow> Inl (Exn KeyError k) | Some v \<Rightarrow> Inr v)"

subsection \<open>What \<^verbatim>\<open>jsonify\<close> writes into the body\<close>

text \<open>
  \<^verbatim>\<open>str(n)\<close> for an integer, and the JSON value that Flask's default JSON provider writes for
  a Python value: a tuple becomes an array and a \<^verbatim>\<open>Decimal\<close> becomes the string
  \<^verbatim>\<open>str(d)\<close>; the other values are written as they are. (A response object is not
  serialisable and no dict of this program holds one; it is left in place.)
\<close>

fun digit_chars :: "nat \<Rightarrow> string" where
  "digit_chars n =
     (if n < 10 then [''0123456789'' ! n]
      else digit_chars (n div 10) @ [''0123456789'' ! (n mod 10)])"

declare digit_chars.simps [simp del]

definition str_int :: "int \<Rightarrow> string" where
  "str_int i = (if i < 0 then CHR ''-'' # digit_chars (nat (- i)) else digit_chars (nat i))"

primrec to_json :: "pyval \<Rightarrow> pyval" where
  "to_json PNone = PNone"
| "to_json (PBool b) = PBool b"
| "to_json (PInt i) = PInt i"
| "to_json (PFloat f) = PFloat f"
| "to_json (PStr s) = PStr s"
| "to_json (PList xs) = PList (map to_json xs)"
| "to_json (PDict kvs) = PDict (map (map_prod id to_json) kvs)"
| "to_json (PTuple xs) = PList (map to_json xs)"
| "to_json (PStamp t) = PStamp t"
| "to_json (PDecimal i) = PStr (str_int i)"
| "to_json (PResponse b) = PResponse b"

subsection \<open>The builtin \<^verbatim>\<open>int()\<close>\<close>

text \<open>
  \<^verbatim>\<open>int(s)\<close> on a string strips whitespace, reads an optional sign and then decimal digits,
  where single underscores may stand between digits; anything else is a \<^verbatim>\<open>ValueError\<close>, and
  so is a literal of more than 4300 digits (the interpreter's default limit). On a float it
  truncates towards zero, raising \<^verbatim>\<open>ValueError\<close> on NaN and \<^verbatim>\<open>OverflowError\<close> on an
  infinity. On a bool it gives 0 or 1, on a Decimal its integral value, and on \<^verbatim>\<open>None\<close>, a
  list or a dict it raises \<^verbatim>\<open>TypeError\<close>. A \<open>char\<close> is a code point below 256: among these the
  spaces that \<^verbatim>\<open>int()\<close> strips are 9 to 13, 32, 133 and 160 (it does not strip 28 to 31),
  and the decimal digits are 48 to 57. Spaces and digits of code points from 256 up are
  outside the type.
\<close>

definition is_space :: "char \<Rightarrow> bool" where
  "is_space c =
     (let n = (of_char c :: nat) in (9 \<le> n \<and> n \<le> 13) \<or> n = 32 \<or> n = 133 \<or> n = 160)"

definition strip :: "string \<Rightarrow> string" where
  "strip s = rev (dropWhile is_space (rev (dropWhile is_space s)))"

definition digit_val :: "char \<Rightarrow> int option" where
  "digit_val c = (let n = (of_char c :: nat) in if 48 \<le> n \<and> n \<le> 57 then Some (int n - 48) else None)"

fun digits_val :: "int \<Rightarrow> bool \<Rightarrow> string \<Rightarrow> int option" where
  "digits_val acc prev [] = (if prev then Some acc else None)"
| "digits_val acc prev (c # cs) =
     (if c = CHR ''_'' then (if prev then digits_val acc False cs else None)
      else (case digit_val c of
              None \<Rightarrow> None
            | Some d \<Rightarrow> digits_val (10 * acc + d) True cs))"

definition int_of_str :: "string \<Rightarrow> exn + int" where
  "int_of_str s =
     (let t = strip s;
          neg = (t \<noteq> [] \<and> hd t = CHR ''-'');
          body = (if t \<noteq> [] \<and> (hd t = CHR ''-'' \<or> hd t = CHR ''+'') then tl t else t)
      in case digits_val 0 False body of
           None \<Rightarrow> Inl (Exn ValueError ''invalid literal for int() with base 10'')
         | Some n \<Rightarrow>
             if 4300 < length (filter (\<lambda>c. digit_val c \<noteq> None) body) then
               Inl (Exn ValueError ''Exceeds the limit (4300 digits) for integer string conversion'')
             else Inr (if neg then - n else n))"

definition trunc :: "rat \<Rightarrow> int" where
  "trunc q = (if 0 \<le> q then \<lfloor>q\<rfloor> else \<lceil>q\<rceil>)"

fun py_int :: "pyval \<Rightarrow> exn + int" where
  "py_int (PInt i) = Inr i"
| "py_int (PBool b) = Inr (if b then 1 else 0)"
| "py_int (PFloat (Finite q)) = Inr (trunc q)"
| "py_int (PFloat NaN) = Inl (Exn ValueError ''cannot convert float NaN to integer'')"
| "py_int (PFloat PosInf) = Inl (Exn OverflowError ''cannot convert float infinity to integer'')"
| "py_int (PFloat NegInf) = Inl (Exn OverflowError ''cannot convert float infinity to integer'')"
| "py_int (PStr s) = int_of_str s"
| "py_int (PDecimal i) = Inr i"
| "py_int v = Inl (Exn TypeError ''int() argument must be a string, a bytes-like object or a real number'')"

text \<open>
  \<^verbatim>\<open>round(x, 2)\<close>: to two decimals, halves to the even neighbour. It rounds the exact
  rational; Python rounds the binary float that stands for it, which can differ in the last
  digit (\<^verbatim>\<open>round(2.675, 2)\<close> is 2.67). Only the \<^verbatim>\<open>duration_ms\<close> field of a log record is
  computed with it.
\<close>

definition round_half_even :: "rat \<Rightarrow> int" where
  "round_half_even q =
     (let f = \<lfloor>q\<rfloor>; d = q - of_int f
      in if d < 1 / 2 then f else if 1 / 2 < d then f + 1 else if even f then f else f + 1)"

definition round2 :: "rat \<Rightarrow> rat" where
  "round2 q = of_int (round_half_even (q * 100)) / 100"

section \<open>Effects: the log, the telemetry sink, the clock, the request context\<close>

text \<open>
  A computation returns, besides its result, the events it produced, in order: the records
  handed to the logger and the calls made to CloudWatch. A log record is its level, its
  message (for an f-string, the template) and its fields (\<^verbatim>\<open>extra\<close>, or the values the
  f-string interpolates, left unformatted).
\<close>

datatype level = DEBUG | INFO | WARNING | ERROR

datatype dim_value = Lit string | Str_of pyval

datatype dimension = Dimension (Name: string) (DimValue: dim_value)

datatype metric =
  Metric (MetricName: string) (Dimensions: "dimension list") (Value: rat) (Unit: string)
    (Timestamp: time)

datatype event =
    LogRecord level string "(string \<times> pyval) list"
  | PutMetricData string "metric list"

text \<open>
  The environment: what the \<open>n\<close>-th reading of the system clock shows, and what
  \<^verbatim>\<open>cloudwatch.put_metric_data\<close> does when called (at clock reading \<open>n\<close>, with a namespace
  and the metric data): \<open>None\<close> when it returns, \<open>Some e\<close> when it raises \<open>e\<close>.
\<close>

record env =
  clock :: "nat \<Rightarrow> time"
  put_metric_data :: "nat \<Rightarrow> string \<Rightarrow> metric list \<Rightarrow> exn option"

text \<open>\<^verbatim>\<open>flask.g\<close>: the three attributes the decorators use, \<open>None\<close> while unset.\<close>

record ctx =
  g_start_time :: "time option"
  g_endpoint :: "string option"
  g_method :: "string option"

record 's world =
  flask_g :: ctx
  ticks :: nat
  db :: 's

record request =
  req_endpoint :: "string option"
  req_method :: string
  user_agent :: "string option"
  args :: "(string \<times> string) list"
  get_json :: "exn + pyval"

type_synonym 's handler = "request \<Rightarrow> 's world \<Rightarrow> (exn + pyval) \<times> event list \<times> 's world"

definition time_time :: "env \<Rightarrow> 's world \<Rightarrow> time \<times> 's world" where
  "time_time e w = (clock e (ticks w), w\<lparr>ticks := Suc (ticks w)\<rparr>)"

definition utcnow :: "env \<Rightarrow> 's world \<Rightarrow> time \<times> 's world" where
  "utcnow e w = (clock e (ticks w), w\<lparr>ticks := Suc (ticks w)\<rparr>)"

section \<open>utils/decorator.py\<close>

subsection \<open>\<^verbatim>\<open>send_metrics_to_cloudwatch\<close>\<close>

definition send_metrics_to_cloudwatch ::
  "env \<Rightarrow> string \<Rightarrow> string \<Rightarrow> pyval \<Rightarrow> rat \<Rightarrow> bool \<Rightarrow> string option \<Rightarrow> 's world
     \<Rightarrow> (exn + unit) \<times> event list \<times> 's world" where
  "send_metrics_to_cloudwatch e endpoint method status_code duration success error_type w0 =
     (let namespace = ''TVShowTracker/API'';
          (timestamp, w1) = utcnow e w0;
          dimensions =
            [Dimension ''Endpoint'' (Lit endpoint),
             Dimension ''Method'' (Lit method),
             Dimension ''StatusCode'' (Str_of status_code)]
            @ (case error_type of
                 None \<Rightarrow> []
               | Some t \<Rightarrow> if t \<noteq> [] then [Dimension ''ErrorType'' (Lit t)] else []);
          metric_data =
            [Metric ''RequestCount'' dimensions 1 ''Count'' timestamp,
             Metric ''ResponseTime'' dimensions (duration * 1000) ''Milliseconds'' timestamp]
            @ (if success then [Metric ''SuccessCount'' dimensions 1 ''Count'' timestamp]
               else [Metric ''ErrorCount'' dimensions 1 ''Count'' timestamp])
      in case put_metric_data e (ticks w1) namespace metric_data of
           None \<Rightarrow>
             (Inr (),
              [PutMetricData namespace metric_data,
               LogRecord DEBUG ''Sent metrics to CloudWatch for {endpoint}''
                 [(''endpoint'', PStr endpoint)]],
              w1)
         | Some x \<Rightarrow>
             if is_Exception (exn_cls x) then
               (Inr (),
                [PutMetricData namespace metric_data,
                 LogRecord ERROR ''Failed to send metrics to CloudWatch: {str(e)}''
                   [(''str(e)'', PStr (exn_msg x))]],
                w1)
             else (Inl x, [PutMetricData namespace metric_data], w1))"

subsection \<open>\<^verbatim>\<open>log_api_call\<close>\<close>

text \<open>Lines 20 to 39: what the wrapper does before it calls the wrapped function.\<close>

definition log_api_call_entry ::
  "env \<Rightarrow> request \<Rightarrow> 's world \<Rightarrow> time \<times> string \<times> string \<times> event \<times> 's world" where
  "log_api_call_entry e req w0 =
     (let (start_time, w1) = time_time e w0;
          endpoint = (case req_endpoint req of
                        None \<Rightarrow> ''unknown''
                      | Some x \<Rightarrow> if x = [] then ''unknown'' else x);
          method = req_method req;
          ua = (case user_agent req of None \<Rightarrow> ''unknown'' | Some u \<Rightarrow> u);
          w2 = w1\<lparr>flask_g := (flask_g w1)\<lparr>g_start_time := Some start_time,
                    g_endpoint := Some endpoint, g_method := Some method\<rparr>\<rparr>;
          (ts, w3) = utcnow e w2
      in (start_time, endpoint, method,
          LogRecord INFO ''API_CALL_START''
            [(''endpoint'', PStr endpoint), (''method'', PStr method),
             (''user_agent'', PStr ua), (''timestamp'', PStamp ts)],
          w3))"

text \<open>Lines 49 to 52.\<close>

definition log_status_code :: "pyval \<Rightarrow> exn + pyval" where
  "log_status_code result =
     (case result of
        PTuple xs \<Rightarrow>
          if 1 < length xs then Inr (xs ! 1) else Inl (Exn IndexError ''tuple index out of range'')
      | _ \<Rightarrow> Inr (PInt 200))"

text \<open>Lines 68 to 85: the \<^verbatim>\<open>except Exception as e\<close> block, ending in a bare \<^verbatim>\<open>raise\<close>.\<close>

definition log_api_call_except ::
  "env \<Rightarrow> time \<Rightarrow> string \<Rightarrow> string \<Rightarrow> exn \<Rightarrow> 's world \<Rightarrow> (exn + pyval) \<times> event list \<times> 's world" where
  "log_api_call_except e start_time endpoint method x w0 =
     (let (t1, w1) = time_time e w0;
          duration = t1 - start_time;
          (ts, w2) = utcnow e w1
      in (Inl x,
          [LogRecord ERROR ''API_CALL_ERROR''
             [(''endpoint'', PStr endpoint), (''method'', PStr method),
              (''error'', PStr (exn_msg x)), (''error_type'', PStr (type_name (exn_cls x))),
              (''duration_ms'', PFloat (Finite (round2 (duration * 1000)))),
              (''timestamp'', PStamp ts)]],
          w2))"

definition log_api_call :: "env \<Rightarrow> 's handler \<Rightarrow> 's handler" where
  "log_api_call e func req w0 =
     (let (start_time, endpoint, method, ev_start, w3) = log_api_call_entry e req w0;
          (r, evs, w4) = func req w3
      in case r of
           Inl x \<Rightarrow>
             if is_Exception (exn_cls x) then
               (let (r', evs', w') = log_api_call_except e start_time endpoint method x w4
                in (r', ev_start # evs @ evs', w'))
             else (Inl x, ev_start # evs, w4)
         | Inr result \<Rightarrow>
             (let (t1, w5) = time_time e w4;
                  duration = t1 - start_time
              in case log_status_code result of
                   Inl x \<Rightarrow>
                     (let (r', evs', w') = log_api_call_except e start_time endpoint method x w5
                      in (r', ev_start # evs @ evs', w'))
                 | Inr status_code \<Rightarrow>
                     (let (ts, w6) = utcnow e w5
                      in (Inr result,
                          ev_start # evs @
                          [LogRecord INFO ''API_CALL_SUCCESS''
                             [(''endpoint'', PStr endpoint), (''method'', PStr method),
                              (''status_code'', status_code),
                              (''duration_ms'', PFloat (Finite (round2 (duration * 1000)))),
                              (''timestamp'', PStamp ts)]],
                          w6))))"

subsection \<open>\<^verbatim>\<open>track_metrics\<close>\<close>

text \<open>
  Lines 99 to 103 and 124 to 128: the values read from \<^verbatim>\<open>g\<close>. The default of
  \<^verbatim>\<open>getattr(g, 'start_time', time.time())\<close> is an argument, so the clock is read whether or
  not the attribute is set.
\<close>

definition read_g :: "env \<Rightarrow> 's world \<Rightarrow> (string \<times> string \<times> rat) \<times> 's world" where
  "read_g e w0 =
     (let (now, w1) = time_time e w0;
          start_time = (case g_start_time (flask_g w1) of None \<Rightarrow> now | Some t \<Rightarrow> t);
          endpoint = (case g_endpoint (flask_g w1) of None \<Rightarrow> ''unknown'' | Some x \<Rightarrow> x);
          method = (case g_method (flask_g w1) of None \<Rightarrow> ''unknown'' | Some x \<Rightarrow> x);
          (t1, w2) = time_time e w1;
          duration = t1 - start_time
      in ((endpoint, method, duration), w2))"

text \<open>Lines 106 to 109.\<close>

definition metrics_status_code :: "pyval \<Rightarrow> exn + pyval" where
  "metrics_status_code result =
     (case result of
        PTuple xs \<Rightarrow>
          if 1 < length xs then Inr (xs ! 1) else Inl (Exn IndexError ''tuple index out of range'')
      | _ \<Rightarrow> Inr (PInt 200))"

text \<open>
  Lines 122 to 140: the \<^verbatim>\<open>except Exception as e\<close> block. The bare \<^verbatim>\<open>raise\<close> re-raises the
  exception that was caught, unless the call before it raised.
\<close>

definition track_metrics_except ::
  "env \<Rightarrow> exn \<Rightarrow> 's world \<Rightarrow> (exn + pyval) \<times> event list \<times> 's world" where
  "track_metrics_except e x w0 =
     (let ((endpoint, method, duration), w2) = read_g e w0;
          (r, evs, w3) = send_metrics_to_cloudwatch e endpoint method (PInt 500) duration False
                           (Some (type_name (exn_cls x))) w2
      in case r of
           Inl y \<Rightarrow> (Inl y, evs, w3)
         | Inr u \<Rightarrow> (Inl x, evs, w3))"

definition track_metrics :: "env \<Rightarrow> 's handler \<Rightarrow> 's handler" where
  "track_metrics e func req w0 =
     (let (r, evs, w1) = func req w0
      in case r of
           Inl x \<Rightarrow>
             if is_Exception (exn_cls x) then
               (let (r', evs', w') = track_metrics_except e x w1 in (r', evs @ evs', w'))
             else (Inl x, evs, w1)
         | Inr result \<Rightarrow>
             (let ((endpoint, method, duration), w3) = read_g e w1
              in case metrics_status_code result of
                   Inl x \<Rightarrow>
                     (let (r', evs', w') = track_metrics_except e x w3 in (r', evs @ evs', w'))
                 | Inr status_code \<Rightarrow>
                     (let (r2, evs2, w4) =
                            send_metrics_to_cloudwatch e endpoint method status_code duration
                              True None w3
                      in case r2 of
                           Inl y \<Rightarrow>
                             if is_Exception (exn_cls y) then
                               (let (r', evs', w') = track_metrics_except e y w4
                                in (r', evs @ evs2 @ evs', w'))
                             else (Inl y, evs @ evs2, w4)
                         | Inr u \<Rightarrow> (Inr result, evs @ evs2, w4))))"

text \<open>
  The two decorators that \<^verbatim>\<open>utils/decorator.py\<close> defines for view functions, stacked as
  \<^verbatim>\<open>infra/api.py\<close> writes them: the call logger around the metrics tracker.
\<close>

definition instrumented :: "env \<Rightarrow> 's handler \<Rightarrow> 's handler" where
  "instrumented e func = log_api_call e (track_metrics e func)"

section \<open>infra/api.py\<close>

subsection \<open>The table\<close>

text \<open>
  An item is a dict. A response of the table is a dict too, with the keys the program reads:
  \<open>None\<close> where the key is absent. \<^verbatim>\<open>get_table()\<close> returns the table object; its four
  methods are the store capability, each a function of the arguments the program passes and
  of the store's state \<open>'s\<close>, raising or returning. Only \<^verbatim>\<open>put_item\<close> changes the state.
\<close>

type_synonym item = "(string \<times> pyval) list"

record response =
  Item :: "item option"
  Items :: "item list option"
  LastEvaluatedKey :: "item option"

record 's table =
  get_item :: "item \<Rightarrow> 's \<Rightarrow> exn + response"
  query_eq :: "pyval \<Rightarrow> 's \<Rightarrow> exn + response"
  put_item :: "item \<Rightarrow> 's \<Rightarrow> exn + 's"
  scan :: "item option \<Rightarrow> 's \<Rightarrow> exn + response"

text \<open>
  The two \<^verbatim>\<open>except\<close> clauses that end each view function: \<^verbatim>\<open>ClientError\<close> first, then
  \<^verbatim>\<open>Exception\<close>; \<open>fname\<close> is the function's name in the second message.
\<close>

definition except_clauses ::
  "string \<Rightarrow> exn \<Rightarrow> event list \<Rightarrow> 's world \<Rightarrow> (exn + pyval) \<times> event list \<times> 's world" where
  "except_clauses fname x evs w =
     (if exn_cls x = ClientError then
        (Inr (PTuple [jsonify [(''error'', PStr ''Database error'')], PInt 500]),
         evs @ [LogRecord ERROR ''DynamoDB error: {str(e)}'' [(''str(e)'', PStr (exn_msg x))]],
         w)
      else if is_Exception (exn_cls x) then
        (Inr (PTuple [jsonify [(''error'', PStr ''Internal server error'')], PInt 500]),
         evs @ [LogRecord ERROR (''Unexpected error in '' @ fname @ '': {str(e)}'')
                  [(''str(e)'', PStr (exn_msg x))]],
         w)
      else (Inl x, evs, w))"

text \<open>
  \<^verbatim>\<open>request.args.get(k)\<close> as a Python value, and a dict display that reads \<^verbatim>\<open>item[k]\<close> for
  each key in order (the first absent key raises \<^verbatim>\<open>KeyError\<close>).
\<close>

definition args_get :: "request \<Rightarrow> string \<Rightarrow> pyval" where
  "args_get req k = (case map_of (args req) k of None \<Rightarrow> PNone | Some s \<Rightarrow> PStr s)"

fun getitems :: "item \<Rightarrow> string list \<Rightarrow> exn + (string \<times> pyval) list" where
  "getitems item [] = Inr []"
| "getitems item (k # ks) =
     (case getitem item k of
        Inl x \<Rightarrow> Inl x
      | Inr v \<Rightarrow> (case getitems item ks of Inl x \<Rightarrow> Inl x | Inr kvs \<Rightarrow> Inr ((k, v) # kvs)))"

subsection \<open>\<^verbatim>\<open>show_episode\<close>\<close>

definition show_episode :: "'s table \<Rightarrow> 's handler" where
  "show_episode tbl req w =
     (let username = args_get req ''username'';
          tv_show = args_get req ''tv_show''
      in if \<not> truthy username \<or> \<not> truthy tv_show then
           (Inr (PTuple [jsonify [(''error'', PStr ''Username and tv_show are required'')], PInt 400]),
            [LogRecord WARNING ''Missing parameters: username={username}, tv_show={tv_show}''
               [(''username'', username), (''tv_show'', tv_show)]],
            w)
         else
           (case get_item tbl [(''username'', username), (''tv_show'', tv_show)] (db w) of
              Inl x \<Rightarrow> except_clauses ''show_episode'' x [] w
            | Inr response \<Rightarrow>
                (case Item response of
                   Some item \<Rightarrow>
                     (let evs = [LogRecord INFO ''Retrieved episode data for {username} - {tv_show}''
                                   [(''username'', username), (''tv_show'', tv_show)]]
                      in case getitems item [''username'', ''tv_show'', ''season'', ''episode''] of
                           Inl x \<Rightarrow> except_clauses ''show_episode'' x evs w
                         | Inr kvs \<Rightarrow>
                             (Inr (jsonify (kvs @ [(''last_updated'',
                                     dict_get_default item ''last_updated'' (PStr []))])),
                              evs, w))
                 | None \<Rightarrow>
                     (Inr (PTuple [jsonify [(''message'',
                             PStr ''No data found for this user and TV show'')], PInt 404]),
                      [LogRecord INFO ''No data found for {username} - {tv_show}''
                         [(''username'', username), (''tv_show'', tv_show)]],
                      w))))"

subsection \<open>\<^verbatim>\<open>show_user\<close>\<close>

text \<open>The \<^verbatim>\<open>for\<close> loop of lines 83 to 89, appending to \<open>shows\<close>.\<close>

fun show_user_loop :: "item list \<Rightarrow> pyval list \<Rightarrow> exn + pyval list" where
  "show_user_loop [] shows = Inr shows"
| "show_user_loop (item # items) shows =
     (case getitems item [''tv_show'', ''season'', ''episode''] of
        Inl x \<Rightarrow> Inl x
      | Inr kvs \<Rightarrow>
          show_user_loop items
            (shows @ [PDict (kvs @ [(''last_updated'',
                        dict_get_default item ''last_updated'' (PStr []))])]))"

definition show_user :: "'s table \<Rightarrow> 's handler" where
  "show_user tbl req w =
     (let username = args_get req ''username''
      in if \<not> truthy username then
           (Inr (PTuple [jsonify [(''error'', PStr ''Username is required'')], PInt 400]),
            [LogRecord WARNING ''Missing username parameter'' []],
            w)
         else
           (case query_eq tbl username (db w) of
              Inl x \<Rightarrow> except_clauses ''show_user'' x [] w
            | Inr response \<Rightarrow>
                (case Items response of
                   None \<Rightarrow> except_clauses ''show_user'' (Exn KeyError ''Items'') [] w
                 | Some items \<Rightarrow>
                     (case show_user_loop items [] of
                        Inl x \<Rightarrow> except_clauses ''show_user'' x [] w
                      | Inr shows \<Rightarrow>
                          (Inr (jsonify [(''username'', username), (''shows'', PList shows),
                                  (''total_shows'', PInt (int (length shows)))]),
                           [LogRecord INFO ''Retrieved {len(shows)} shows for user {username}''
                              [(''len(shows)'', PInt (int (length shows))),
                               (''username'', username)]],
                           w)))))"

subsection \<open>\<^verbatim>\<open>update_episode\<close>\<close>

text \<open>
  Lines 136 to 138: \<^verbatim>\<open>except (ValueError, TypeError)\<close>; any other exception of \<^verbatim>\<open>int()\<close>
  leaves the function.
\<close>

definition int_except ::
  "exn \<Rightarrow> pyval \<Rightarrow> pyval \<Rightarrow> 's world \<Rightarrow> (exn + pyval) \<times> event list \<times> 's world" where
  "int_except x season episode w =
     (if exn_cls x = ValueError \<or> exn_cls x = TypeError then
        (Inr (PTuple [jsonify [(''error'', PStr ''Season and episode must be valid integers'')],
                PInt 400]),
         [LogRecord WARNING ''Invalid season/episode format: season={season}, episode={episode}''
            [(''season'', season), (''episode'', episode)]],
         w)
      else (Inl x, [], w))"

definition update_episode :: "env \<Rightarrow> 's table \<Rightarrow> 's handler" where
  "update_episode e tbl req w =
     (case get_json req of
        Inl x \<Rightarrow> (Inl x, [], w)
      | Inr data \<Rightarrow>
          if \<not> truthy data then
            (Inr (PTuple [jsonify [(''error'', PStr ''JSON data is required'')], PInt 400]),
             [LogRecord WARNING ''No JSON data provided'' []],
             w)
          else
            (case data of
               PDict d \<Rightarrow>
                 (let username = dict_get d ''username'';
                      tv_show = dict_get d ''tv_show'';
                      season = dict_get d ''season'';
                      episode = dict_get d ''episode''
                  in if \<not> (truthy username \<and> truthy tv_show \<and> season \<noteq> PNone \<and> episode \<noteq> PNone) then
                       (Inr (PTuple [jsonify [(''error'',
                               PStr ''Username, tv_show, season, and episode are required'')],
                               PInt 400]),
                        [LogRecord WARNING
                           ''Missing parameters: username={username}, tv_show={tv_show}, season={season}, episode={episode}''
                           [(''username'', username), (''tv_show'', tv_show),
                            (''season'', season), (''episode'', episode)]],
                        w)
                     else
                       (case py_int season of
                          Inl x \<Rightarrow> int_except x season episode w
                        | Inr s \<Rightarrow>
                            (case py_int episode of
                               Inl x \<Rightarrow> int_except x (PInt s) episode w
                             | Inr ep \<Rightarrow>
                                 if s < 1 \<or> ep < 1 then
                                   (Inr (PTuple [jsonify [(''error'',
                                           PStr ''Season and episode must be positive integers'')],
                                           PInt 400]),
                                    [], w)
                                 else
                                   (let (now, w1) = utcnow e w;
                                        new_item = [(''username'', username), (''tv_show'', tv_show),
                                                (''season'', PInt s), (''episode'', PInt ep),
                                                (''last_updated'', PStamp now)]
                                    in case put_item tbl new_item (db w1) of
                                         Inl x \<Rightarrow> except_clauses ''update_episode'' x [] w1
                                       | Inr db' \<Rightarrow>
                                           (Inr (PTuple [jsonify
                                                   [(''message'', PStr ''Episode updated successfully''),
                                                    (''username'', username), (''tv_show'', tv_show),
                                                    (''season'', PInt s), (''episode'', PInt ep)],
                                                   PInt 201]),
                                            [LogRecord INFO
                                               ''Updated episode data for {username} - {tv_show} S{season}E{episode}''
                                               [(''username'', username), (''tv_show'', tv_show),
                                                (''season'', PInt s), (''episode'', PInt ep)]],
                                            w1\<lparr>db := db'\<rparr>)))))
             | _ \<Rightarrow> (Inl (Exn AttributeError ''object has no attribute get''), [], w)))"

subsection \<open>\<^verbatim>\<open>show_all\<close>\<close>

text \<open>The \<^verbatim>\<open>for\<close> loops of lines 182 to 189 and 194 to 201, appending to \<open>entries\<close>.\<close>

fun show_all_loop :: "item list \<Rightarrow> pyval list \<Rightarrow> exn + pyval list" where
  "show_all_loop [] entries = Inr entries"
| "show_all_loop (item # items) entries =
     (case getitems item [''username'', ''tv_show'', ''season'', ''episode''] of
        Inl x \<Rightarrow> Inl x
      | Inr kvs \<Rightarrow>
          show_all_loop items
            (entries @ [PDict (kvs @ [(''last_updated'',
                          dict_get_default item ''last_updated'' (PStr []))])]))"

text \<open>
  The \<^verbatim>\<open>while 'LastEvaluatedKey' in response\<close> loop of lines 192 to 201. Nothing in the
  program bounds the number of pages, so the loop returns an option: \<open>None\<close> when it runs
  forever.
\<close>

partial_function (option) pagination ::
  "'s table \<Rightarrow> 's \<Rightarrow> response \<Rightarrow> pyval list \<Rightarrow> (exn + pyval list) option" where
  "pagination tbl s response entries =
     (case LastEvaluatedKey response of
        None \<Rightarrow> Some (Inr entries)
      | Some k \<Rightarrow>
          (case scan tbl (Some k) s of
             Inl x \<Rightarrow> Some (Inl x)
           | Inr response' \<Rightarrow>
               (case Items response' of
                  None \<Rightarrow> Some (Inl (Exn KeyError ''Items''))
                | Some items \<Rightarrow>
                    (case show_all_loop items entries of
                       Inl x \<Rightarrow> Some (Inl x)
                     | Inr entries' \<Rightarrow> pagination tbl s response' entries'))))"

definition show_all ::
  "'s table \<Rightarrow> request \<Rightarrow> 's world \<Rightarrow> ((exn + pyval) \<times> event list \<times> 's world) option" where
  "show_all tbl req w =
     (case scan tbl None (db w) of
        Inl x \<Rightarrow> Some (except_clauses ''show_all'' x [] w)
      | Inr response \<Rightarrow>
          (case Items response of
             None \<Rightarrow> Some (except_clauses ''show_all'' (Exn KeyError ''Items'') [] w)
           | Some items \<Rightarrow>
               (case show_all_loop items [] of
                  Inl x \<Rightarrow> Some (except_clauses ''show_all'' x [] w)
                | Inr entries0 \<Rightarrow>
                    (case pagination tbl (db w) response entries0 of
                       None \<Rightarrow> None
                     | Some (Inl x) \<Rightarrow> Some (except_clauses ''show_all'' x [] w)
                     | Some (Inr entries) \<Rightarrow>
                         Some (Inr (jsonify [(''entries'', PList entries),
                                       (''total_entries'', PInt (int (length entries)))]),
                               [LogRecord INFO ''Retrieved all {len(entries)} entries from table''
                                  [(''len(entries)'', PInt (int (length entries)))]],
                               w)))))"

section \<open>Module level: the names \<^verbatim>\<open>infra/api.py\<close> imports and the decorators it applies\<close>

text \<open>
  The names \<^verbatim>\<open>utils/decorator.py\<close> binds at module level, in order: its imports, its
  assignments and its four \<^verbatim>\<open>def\<close>s.
\<close>

definition decorator_names :: "string list" where
  "decorator_names =
     [''functools'', ''time'', ''logging'', ''boto3'', ''request'', ''g'', ''datetime'',
      ''logger'', ''cloudwatch'', ''BATCH_INTERVAL'',
      ''log_api_call'', ''track_metrics'', ''send_metrics_to_cloudwatch'',
      ''log_database_operation'']"

text \<open>
  \<^verbatim>\<open>from M import a, b, c\<close> binds each name that the module defines and raises
  \<^verbatim>\<open>ImportError\<close> at the first one it does not define.
\<close>

fun import_from :: "string list \<Rightarrow> string list \<Rightarrow> exn + string list" where
  "import_from defined [] = Inr []"
| "import_from defined (n # ns) =
     (if n \<in> set defined then
        (case import_from defined ns of Inl x \<Rightarrow> Inl x | Inr bound \<Rightarrow> Inr (n # bound))
      else Inl (Exn ImportError (''cannot import name '' @ n)))"

text \<open>Line 4 of \<^verbatim>\<open>infra/api.py\<close>.\<close>

definition api_imports :: "string list" where
  "api_imports = [''log_api_call'', ''track_metrics'', ''send_http_metrics'']"

text \<open>
  Each view function with the decorators written above it, outermost first, below
  \<^verbatim>\<open>@api_blueprint.route\<close> (lines 20 to 24, 64 to 68, 106 to 110, 171 to 175).
\<close>

definition view_decorators :: "(string \<times> string list) list" where
  "view_decorators =
     [(''show_episode'', [''log_api_call'', ''track_metrics'', ''send_http_metrics'']),
      (''show_user'', [''log_api_call'', ''track_metrics'', ''send_http_metrics'']),
      (''update_episode'', [''log_api_call'', ''track_metrics'', ''send_http_metrics'']),
      (''show_all'', [''log_api_call'', ''track_metrics'', ''send_http_metrics''])]"

text \<open>Loading the module: the import runs first, then the decorated definitions.\<close>

definition load_api :: "exn + (string \<times> string list) list" where
  "load_api =
     (case import_from decorator_names api_imports of
        Inl x \<Rightarrow> Inl x
      | Inr bound \<Rightarrow> Inr view_decorators)"

section \<open>Vocabulary of the statements\<close>

text \<open>
  The telemetry sink fails with faults only: whatever \<^verbatim>\<open>put_metric_data\<close> raises is an
  instance of \<^verbatim>\<open>Exception\<close> (a connection error, a client error, a validation error), not
  an interrupt or an interpreter exit.
\<close>

definition sink_faults_are_exceptions :: "env \<Rightarrow> bool" where
  "sink_faults_are_exceptions e =
     (\<forall>n ns ms x. put_metric_data e n ns ms = Some x \<longrightarrow> is_Exception (exn_cls x))"

text \<open>The world in which \<^verbatim>\<open>log_api_call\<close> calls the function it wraps, and the record it
  logs before that.\<close>

definition entry_world :: "env \<Rightarrow> request \<Rightarrow> 's world \<Rightarrow> 's world" where
  "entry_world e req w = snd (snd (snd (snd (log_api_call_entry e req w))))"

definition start_event :: "env \<Rightarrow> request \<Rightarrow> 's world \<Rightarrow> event" where
  "start_event e req w = fst (snd (snd (snd (log_api_call_entry e req w))))"

text \<open>The events a call of the emitter produces.\<close>

definition emitted ::
  "env \<Rightarrow> string \<Rightarrow> string \<Rightarrow> pyval \<Rightarrow> rat \<Rightarrow> bool \<Rightarrow> string option \<Rightarrow> 's world \<Rightarrow> event list" where
  "emitted e endpoint method status_code duration success error_type w =
     fst (snd (send_metrics_to_cloudwatch e endpoint method status_code duration success error_type w))"

text \<open>
  An Episode Record has the four keys the view functions index. \<open>entry\<close> is the dict
  \<^verbatim>\<open>show_all\<close> builds from a record, and \<open>pages_from tbl s r ps\<close> says that the scan, continued
  from the response \<open>r\<close> by its continuation marker, returns the responses \<open>ps\<close> one after
  the other and then stops.
\<close>

definition record_keys :: "string list" where
  "record_keys = [''username'', ''tv_show'', ''season'', ''episode'']"

definition is_record :: "item \<Rightarrow> bool" where
  "is_record it = list_all (\<lambda>k. map_of it k \<noteq> None) record_keys"

definition entry :: "item \<Rightarrow> pyval" where
  "entry it =
     PDict (map (\<lambda>k. (k, dict_get it k)) record_keys
            @ [(''last_updated'', dict_get_default it ''last_updated'' (PStr []))])"

definition page_items :: "response \<Rightarrow> item list" where
  "page_items r = (case Items r of None \<Rightarrow> [] | Some its \<Rightarrow> its)"

definition well_formed_page :: "response \<Rightarrow> bool" where
  "well_formed_page r = (case Items r of None \<Rightarrow> False | Some its \<Rightarrow> list_all is_record its)"

fun pages_from :: "'s table \<Rightarrow> 's \<Rightarrow> response \<Rightarrow> response list \<Rightarrow> bool" where
  "pages_from tbl s r [] = (LastEvaluatedKey r = None)"
| "pages_from tbl s r (p # ps) =
     (case LastEvaluatedKey r of
        None \<Rightarrow> False
      | Some k \<Rightarrow> scan tbl (Some k) s = Inr p \<and> pages_from tbl s p ps)"

subsection \<open>Concrete inputs\<close>

text \<open>
  An in-memory table, keyed by (username, tv_show): \<^verbatim>\<open>put_item\<close> replaces the item of its
  key, \<^verbatim>\<open>get_item\<close> looks the key up, \<^verbatim>\<open>query\<close> filters by username, \<^verbatim>\<open>scan\<close> returns
  everything in one page. An item without its key attributes is refused.
\<close>

type_synonym mem = "((pyval \<times> pyval) \<times> item) list"

definition mem_table :: "mem table" where
  "mem_table =
     \<lparr>get_item = (\<lambda>key s.
        case (map_of key ''username'', map_of key ''tv_show'') of
          (Some u, Some t) \<Rightarrow> Inr \<lparr>Item = map_of s (u, t), Items = None, LastEvaluatedKey = None\<rparr>
        | _ \<Rightarrow> Inl (Exn ClientError ''ValidationException'')),
      query_eq = (\<lambda>u s.
        Inr \<lparr>Item = None, Items = Some (map snd (filter (\<lambda>kv. fst (fst kv) = u) s)),
             LastEvaluatedKey = None\<rparr>),
      put_item = (\<lambda>it s.
        case (map_of it ''username'', map_of it ''tv_show'') of
          (Some u, Some t) \<Rightarrow> Inr (((u, t), it) # filter (\<lambda>kv. fst kv \<noteq> (u, t)) s)
        | _ \<Rightarrow> Inl (Exn ClientError ''ValidationException'')),
      scan = (\<lambda>k s. Inr \<lparr>Item = None, Items = Some (map snd s), LastEvaluatedKey = None\<rparr>)\<rparr>"

text \<open>
  The table as the boto3 resource presents it, for the attributes this program writes:
  an item is kept under its key (username, tv_show), both strings; a Python float is refused
  by the serializer with \<^verbatim>\<open>TypeError\<close>; and a number that was written as an integer is read
  back as a \<^verbatim>\<open>Decimal\<close>, by \<^verbatim>\<open>get_item\<close>, \<^verbatim>\<open>query\<close> and \<^verbatim>\<open>scan\<close> alike. Strings are read
  back as they were written.
\<close>

definition as_read :: "item \<Rightarrow> item" where
  "as_read it = map (\<lambda>kv. (fst kv, (case snd kv of PInt i \<Rightarrow> PDecimal i | v \<Rightarrow> v))) it"

definition is_float :: "pyval \<Rightarrow> bool" where
  "is_float v = (case v of PFloat f \<Rightarrow> True | _ \<Rightarrow> False)"

definition dynamodb_table :: "mem table" where
  "dynamodb_table =
     \<lparr>get_item = (\<lambda>key s.
        case (map_of key ''username'', map_of key ''tv_show'') of
          (Some (PStr u), Some (PStr t)) \<Rightarrow>
            Inr \<lparr>Item = map_option as_read (map_of s (PStr u, PStr t)), Items = None,
                 LastEvaluatedKey = None\<rparr>
        | _ \<Rightarrow> Inl (Exn ClientError ''ValidationException'')),
      query_eq = (\<lambda>u s.
        Inr \<lparr>Item = None,
             Items = Some (map (\<lambda>kv. as_read (snd kv)) (filter (\<lambda>kv. fst (fst kv) = u) s)),
             LastEvaluatedKey = None\<rparr>),
      put_item = (\<lambda>it s.
        if list_ex (\<lambda>kv. is_float (snd kv)) it then
          Inl (Exn TypeError ''Float types are not supported. Use Decimal types instead.'')
        else
          (case (map_of it ''username'', map_of it ''tv_show'') of
             (Some (PStr u), Some (PStr t)) \<Rightarrow>
               Inr (((PStr u, PStr t), it) # filter (\<lambda>kv. fst kv \<noteq> (PStr u, PStr t)) s)
           | _ \<Rightarrow> Inl (Exn ClientError ''ValidationException''))),
      scan = (\<lambda>k s.
        Inr \<lparr>Item = None, Items = Some (map (\<lambda>kv. as_read (snd kv)) s),
             LastEvaluatedKey = None\<rparr>)\<rparr>"

text \<open>A table whose every call is cut short by an interrupt (Ctrl-C while it blocks).\<close>

definition interrupted_table :: "mem table" where
  "interrupted_table =
     \<lparr>get_item = (\<lambda>key s. Inl (Exn (BaseException_only ''KeyboardInterrupt'') [])),
      query_eq = (\<lambda>u s. Inl (Exn (BaseException_only ''KeyboardInterrupt'') [])),
      put_item = (\<lambda>it s. Inl (Exn (BaseException_only ''KeyboardInterrupt'') [])),
      scan = (\<lambda>k s. Inl (Exn (BaseException_only ''KeyboardInterrupt'') []))\<rparr>"

text \<open>
  A table whose state is a list of pages: the scan returns them one per call, and the marker
  of a page is its number.
\<close>

definition paged_table :: "item list list table" where
  "paged_table =
     \<lparr>get_item = (\<lambda>key s. Inr \<lparr>Item = None, Items = None, LastEvaluatedKey = None\<rparr>),
      query_eq = (\<lambda>u s. Inr \<lparr>Item = None, Items = Some [], LastEvaluatedKey = None\<rparr>),
      put_item = (\<lambda>it s. Inr (s @ [[it]])),
      scan = (\<lambda>k s.
        let i = (case k of
                   None \<Rightarrow> 0
                 | Some m \<Rightarrow> (case map_of m ''page'' of Some (PInt n) \<Rightarrow> nat n + 1 | _ \<Rightarrow> 0))
        in if i < length s then
             Inr \<lparr>Item = None, Items = Some (s ! i),
                  LastEvaluatedKey = (if i + 1 < length s then Some [(''page'', PInt (int i))]
                                      else None)\<rparr>
           else Inr \<lparr>Item = None, Items = Some [], LastEvaluatedKey = None\<rparr>)\<rparr>"

text \<open>An environment whose clock shows the number of the reading and whose telemetry sink
  cannot be reached, one whose sink works, the initial world and two requests.\<close>

definition sink_unreachable :: env where
  "sink_unreachable =
     \<lparr>clock = (\<lambda>n. of_nat n),
      put_metric_data = (\<lambda>n ns ms. Some (Exn (OtherException ''EndpointConnectionError'')
                                         ''Could not connect to the endpoint URL''))\<rparr>"

definition sink_working :: env where
  "sink_working = \<lparr>clock = (\<lambda>n. of_nat n), put_metric_data = (\<lambda>n ns ms. None)\<rparr>"

definition world0 :: "mem world" where
  "world0 = \<lparr>flask_g = \<lparr>g_start_time = None, g_endpoint = None, g_method = None\<rparr>,
              ticks = 0, db = []\<rparr>"

definition post_update :: "pyval \<Rightarrow> request" where
  "post_update body =
     \<lparr>req_endpoint = Some ''api.update_episode'', req_method = ''POST'', user_agent = None,
      args = [], get_json = Inr body\<rparr>"

definition get_request :: "string \<Rightarrow> (string \<times> string) list \<Rightarrow> request" where
  "get_request ep query =
     \<lparr>req_endpoint = Some ep, req_method = ''GET'', user_agent = None,
      args = query, get_json = Inr PNone\<rparr>"

definition breaking_bad :: "pyval \<Rightarrow> pyval \<Rightarrow> pyval" where
  "breaking_bad season episode =
     PDict [(''username'', PStr ''john_doe''), (''tv_show'', PStr ''Breaking Bad''),
            (''season'', season), (''episode'', episode)]"

text \<open>A stored record, a table of three pages and a store that holds one record.\<close>

definition episode_item :: "string \<Rightarrow> string \<Rightarrow> int \<Rightarrow> int \<Rightarrow> item" where
  "episode_item u t s ep =
     [(''username'', PStr u), (''tv_show'', PStr t), (''season'', PInt s), (''episode'', PInt ep),
      (''last_updated'', PStamp 0)]"

definition three_pages :: "item list list world" where
  "three_pages =
     \<lparr>flask_g = \<lparr>g_start_time = None, g_endpoint = None, g_method = None\<rparr>, ticks = 0,
      db = [[episode_item ''ann'' ''Lost'' 1 2],
            [episode_item ''bob'' ''Dark'' 3 4, episode_item ''ann'' ''Dark'' 1 1],
            [episode_item ''cy'' ''Lost'' 6 1]]\<rparr>"

definition page :: "nat \<Rightarrow> response" where
  "page i = \<lparr>Item = None, Items = Some (db three_pages ! i),
             LastEvaluatedKey = (if i < 2 then Some [(''page'', PInt (int i))] else None)\<rparr>"

definition world1 :: "mem world" where
  "world1 = world0\<lparr>db := [((PStr ''john_doe'', PStr ''Breaking Bad''),
                           episode_item ''john_doe'' ''Breaking Bad'' 3 7)]\<rparr>"

section \<open>The telemetry sink cannot change a response\<close>

lemma emitter_ok:
  assumes "sink_faults_are_exceptions e"
  shows "send_metrics_to_cloudwatch e endpoint method status_code duration success error_type w
           = (Inr (), emitted e endpoint method status_code duration success error_type w,
              w\<lparr>ticks := Suc (ticks w)\<rparr>)"
  using assms
  by (auto simp: emitted_def send_metrics_to_cloudwatch_def utcnow_def
      sink_faults_are_exceptions_def Let_def split: option.splits)

lemma read_g_eq:
  "read_g e w =
     ((case g_endpoint (flask_g w) of None \<Rightarrow> ''unknown'' | Some x \<Rightarrow> x,
       case g_method (flask_g w) of None \<Rightarrow> ''unknown'' | Some x \<Rightarrow> x,
       clock e (Suc (ticks w))
         - (case g_start_time (flask_g w) of None \<Rightarrow> clock e (ticks w) | Some t \<Rightarrow> t)),
      w\<lparr>ticks := Suc (Suc (ticks w))\<rparr>)"
  by (simp add: read_g_def time_time_def Let_def)

lemma track_metrics_except_ok:
  assumes ok: "sink_faults_are_exceptions e"
    and g: "read_g e w = ((ep, m, d), w2)"
  shows "track_metrics_except e x w =
           (Inl x, emitted e ep m (PInt 500) d False (Some (type_name (exn_cls x))) w2,
            w\<lparr>ticks := Suc (Suc (Suc (ticks w)))\<rparr>)"
proof -
  from g have w2: "w2 = w\<lparr>ticks := Suc (Suc (ticks w))\<rparr>"
    by (simp add: read_g_eq)
  from emitter_ok [OF ok, of ep m "PInt 500" d False "Some (type_name (exn_cls x))" w2] g w2
  show ?thesis by (simp add: track_metrics_except_def)
qed

text \<open>What the metrics tracker returns and how often it reads the clock, by the outcome
  of the function it wraps.\<close>

lemma track_metrics_ok:
  assumes ok: "sink_faults_are_exceptions e" and f: "func req w = (r, evs, w1)"
  shows "\<exists>evs'. track_metrics e func req w =
     (case r of
        Inl x \<Rightarrow> Inl x
      | Inr result \<Rightarrow> (case metrics_status_code result of Inl x \<Rightarrow> Inl x | Inr s \<Rightarrow> Inr result),
      evs @ evs',
      w1\<lparr>ticks := ticks w1 +
        (case r of
           Inl x \<Rightarrow> if is_Exception (exn_cls x) then 3 else 0
         | Inr result \<Rightarrow> (case metrics_status_code result of Inl x \<Rightarrow> 5 | Inr s \<Rightarrow> 3))\<rparr>)"
proof (cases r)
  case (Inl x)
  show ?thesis
  proof (cases "is_Exception (exn_cls x)")
    case True
    obtain ep m d where "read_g e w1 = ((ep, m, d), w1\<lparr>ticks := Suc (Suc (ticks w1))\<rparr>)"
      by (simp add: read_g_eq)
    from track_metrics_except_ok [OF ok this, of x] f Inl True show ?thesis
      by (simp add: track_metrics_def)
  next
    case False
    with f Inl show ?thesis
      by (simp add: track_metrics_def)
  qed
next
  case (Inr result)
  let ?w3 = "w1\<lparr>ticks := Suc (Suc (ticks w1))\<rparr>"
  obtain ep m d where g: "read_g e w1 = ((ep, m, d), ?w3)"
    by (simp add: read_g_eq)
  show ?thesis
  proof (cases "metrics_status_code result")
    case (Inl x)
    obtain ep' m' d' where "read_g e ?w3 = ((ep', m', d'), ?w3\<lparr>ticks := Suc (Suc (ticks ?w3))\<rparr>)"
      by (simp add: read_g_eq)
    from track_metrics_except_ok [OF ok this, of x] f Inr Inl g show ?thesis
      by (simp add: track_metrics_def)
  next
    case (Inr st)
    from emitter_ok [OF ok, of ep m st d True None ?w3] f \<open>r = Inr result\<close> Inr g
    show ?thesis
      by (simp add: track_metrics_def)
  qed
qed

lemma log_api_call_entry_eq:
  "\<exists>st ep m. log_api_call_entry e req w = (st, ep, m, start_event e req w, entry_world e req w)"
  by (simp add: entry_world_def start_event_def log_api_call_entry_def Let_def split: prod.splits)

lemma entry_world_eq:
  "entry_world e req w =
     w\<lparr>ticks := Suc (Suc (ticks w)),
       flask_g := (flask_g w)\<lparr>g_start_time := Some (clock e (ticks w)),
          g_endpoint := Some (case req_endpoint req of
                                None \<Rightarrow> ''unknown''
                              | Some x \<Rightarrow> if x = [] then ''unknown'' else x),
          g_method := Some (req_method req)\<rparr>\<rparr>"
  by (simp add: entry_world_def log_api_call_entry_def time_time_def utcnow_def Let_def)

lemma log_api_call_except_eq:
  "\<exists>d ts. log_api_call_except e st ep m x w =
     (Inl x,
      [LogRecord ERROR ''API_CALL_ERROR''
         [(''endpoint'', PStr ep), (''method'', PStr m), (''error'', PStr (exn_msg x)),
          (''error_type'', PStr (type_name (exn_cls x))), (''duration_ms'', d),
          (''timestamp'', ts)]],
      w\<lparr>ticks := Suc (Suc (ticks w))\<rparr>)"
  by (simp add: log_api_call_except_def time_time_def utcnow_def Let_def)

text \<open>The same for the call logger: its events begin with the start record, followed by
  the events of the function it wraps.\<close>

lemma log_api_call_ok:
  assumes f: "inner req (entry_world e req w) = (r, evs, w4)"
  shows "\<exists>tail. log_api_call e inner req w =
     (case r of
        Inl x \<Rightarrow> Inl x
      | Inr result \<Rightarrow> (case log_status_code result of Inl x \<Rightarrow> Inl x | Inr s \<Rightarrow> Inr result),
      start_event e req w # evs @ tail,
      w4\<lparr>ticks := ticks w4 +
        (case r of
           Inl x \<Rightarrow> if is_Exception (exn_cls x) then 2 else 0
         | Inr result \<Rightarrow> (case log_status_code result of Inl x \<Rightarrow> 3 | Inr s \<Rightarrow> 2))\<rparr>)"
proof -
  obtain st ep m where
    en: "log_api_call_entry e req w = (st, ep, m, start_event e req w, entry_world e req w)"
    using log_api_call_entry_eq by blast
  show ?thesis
  proof (cases r)
    case (Inl x)
    show ?thesis
    proof (cases "is_Exception (exn_cls x)")
      case True
      obtain evs' where
        "log_api_call_except e st ep m x w4 = (Inl x, evs', w4\<lparr>ticks := Suc (Suc (ticks w4))\<rparr>)"
        using log_api_call_except_eq by blast
      with en f Inl True show ?thesis by (simp add: log_api_call_def)
    next
      case False
      with en f Inl show ?thesis by (simp add: log_api_call_def)
    qed
  next
    case (Inr result)
    let ?w5 = "w4\<lparr>ticks := Suc (ticks w4)\<rparr>"
    have t: "time_time e w4 = (clock e (ticks w4), ?w5)"
      by (simp add: time_time_def)
    show ?thesis
    proof (cases "log_status_code result")
      case (Inl x)
      obtain evs' where
        "log_api_call_except e st ep m x ?w5 = (Inl x, evs', ?w5\<lparr>ticks := Suc (Suc (ticks ?w5))\<rparr>)"
        using log_api_call_except_eq by blast
      with en f Inr Inl t show ?thesis by (simp add: log_api_call_def)
    next
      case (Inr s)
      have "utcnow e ?w5 = (clock e (ticks ?w5), ?w5\<lparr>ticks := Suc (ticks ?w5)\<rparr>)"
        by (simp add: utcnow_def)
      with en f \<open>r = Inr result\<close> Inr t show ?thesis by (simp add: log_api_call_def)
    qed
  qed
qed

lemma entry_world_clock: "clock e' = clock e \<Longrightarrow> entry_world e' req w = entry_world e req w"
  by (simp add: entry_world_eq)

lemma instrumented_same:
  assumes ok: "sink_faults_are_exceptions e" and ok': "sink_faults_are_exceptions e'"
    and clk: "clock e' = clock e"
  shows "fst (instrumented e' func req w) = fst (instrumented e func req w)
       \<and> snd (snd (instrumented e' func req w)) = snd (snd (instrumented e func req w))"
proof -
  let ?w3 = "entry_world e req w"
  obtain r evs w1 where f: "func req ?w3 = (r, evs, w1)"
    by (metis prod_cases3)
  have w3: "entry_world e' req w = ?w3"
    using clk by (rule entry_world_clock)
  from track_metrics_ok [of e func req ?w3 r evs w1, OF ok f]
  obtain t where t: "track_metrics e func req ?w3 =
     (case r of
        Inl x \<Rightarrow> Inl x
      | Inr result \<Rightarrow> (case metrics_status_code result of Inl x \<Rightarrow> Inl x | Inr s \<Rightarrow> Inr result),
      evs @ t,
      w1\<lparr>ticks := ticks w1 +
        (case r of
           Inl x \<Rightarrow> if is_Exception (exn_cls x) then 3 else 0
         | Inr result \<Rightarrow> (case metrics_status_code result of Inl x \<Rightarrow> 5 | Inr s \<Rightarrow> 3))\<rparr>)"
    by blast
  from track_metrics_ok [of e' func req ?w3 r evs w1, OF ok' f]
  obtain t' where t': "track_metrics e' func req ?w3 =
     (case r of
        Inl x \<Rightarrow> Inl x
      | Inr result \<Rightarrow> (case metrics_status_code result of Inl x \<Rightarrow> Inl x | Inr s \<Rightarrow> Inr result),
      evs @ t',
      w1\<lparr>ticks := ticks w1 +
        (case r of
           Inl x \<Rightarrow> if is_Exception (exn_cls x) then 3 else 0
         | Inr result \<Rightarrow> (case metrics_status_code result of Inl x \<Rightarrow> 5 | Inr s \<Rightarrow> 3))\<rparr>)"
    by blast
  from log_api_call_ok [of "track_metrics e func" req e w, OF t]
    log_api_call_ok [of "track_metrics e' func" req e' w, unfolded w3, OF t']
  show ?thesis by (auto simp: instrumented_def)
qed

text \<open>
  C2. Whenever the telemetry sink fails with a fault, the emitter returns normally, whatever
  its arguments. Consequently the value a fully instrumented handler returns (the status
  and the body of the response, or the exception of the handler) and the world it leaves are
  exactly those of the same request served with a sink that never fails.
\<close>

theorem metrics_failure_is_invisible:
  assumes ok: "sink_faults_are_exceptions e"
  shows "fst (send_metrics_to_cloudwatch e endpoint method status_code duration success
                error_type w) = Inr ()
       \<and> fst (instrumented e func req w0)
           = fst (instrumented (e\<lparr>put_metric_data := \<lambda>n ns ms. None\<rparr>) func req w0)
       \<and> snd (snd (instrumented e func req w0))
           = snd (snd (instrumented (e\<lparr>put_metric_data := \<lambda>n ns ms. None\<rparr>) func req w0))"
proof -
  have "sink_faults_are_exceptions (e\<lparr>put_metric_data := \<lambda>n ns ms. None\<rparr>)"
    by (simp add: sink_faults_are_exceptions_def)
  from instrumented_same [OF this ok, of func req w0]
    emitter_ok [OF ok, of endpoint "method" status_code duration success error_type w]
  show ?thesis by auto
qed

text \<open>With the sink unreachable, \<^verbatim>\<open>update_episode\<close> still answers 201.\<close>

theorem metrics_failure_is_invisible_witness:
  "sink_faults_are_exceptions sink_unreachable
   \<and> fst (send_metrics_to_cloudwatch sink_unreachable ''api.update_episode'' ''POST''
            (PInt 201) 0 True None world0) = Inr ()
   \<and> fst (instrumented sink_unreachable (update_episode sink_unreachable mem_table)
           (post_update (breaking_bad (PInt 3) (PInt 7))) world0)
       = Inr (PTuple [jsonify [(''message'', PStr ''Episode updated successfully''),
              (''username'', PStr ''john_doe''), (''tv_show'', PStr ''Breaking Bad''),
              (''season'', PInt 3), (''episode'', PInt 7)], PInt 201])"
proof -
  have ok: "sink_faults_are_exceptions sink_unreachable"
    by (simp add: sink_faults_are_exceptions_def sink_unreachable_def)
  have run: "fst (instrumented (sink_unreachable\<lparr>put_metric_data := \<lambda>n ns ms. None\<rparr>)
           (update_episode sink_unreachable mem_table)
           (post_update (breaking_bad (PInt 3) (PInt 7))) world0)
       = Inr (PTuple [jsonify [(''message'', PStr ''Episode updated successfully''),
              (''username'', PStr ''john_doe''), (''tv_show'', PStr ''Breaking Bad''),
              (''season'', PInt 3), (''episode'', PInt 7)], PInt 201])"
    by (simp add: instrumented_def log_api_call_def log_api_call_entry_def track_metrics_def
        read_g_def send_metrics_to_cloudwatch_def log_status_code_def metrics_status_code_def
        time_time_def utcnow_def update_episode_def post_update_def breaking_bad_def dict_get_def
        mem_table_def world0_def sink_unreachable_def Let_def)
  from metrics_failure_is_invisible [OF ok, of "''api.update_episode''" "''POST''" "PInt 201" 0
      True None world0 "update_episode sink_unreachable mem_table"
      "post_update (breaking_bad (PInt 3) (PInt 7))" world0] ok run
  show ?thesis by simp
qed

section \<open>What the two stages emit\<close>

lemma emitter_events:
  "\<exists>r ms rest. send_metrics_to_cloudwatch e endpoint method status_code duration success error_type w
      = (r, PutMetricData ''TVShowTracker/API'' ms # rest, w\<lparr>ticks := Suc (ticks w)\<rparr>)
     \<and> (case r of Inl y \<Rightarrow> \<not> is_Exception (exn_cls y) | Inr u \<Rightarrow> True)"
  by (simp add: send_metrics_to_cloudwatch_def utcnow_def Let_def split: option.splits)

lemma emitted_eq:
  "send_metrics_to_cloudwatch e endpoint method status_code duration success error_type w = (r, evs, w')
   \<Longrightarrow> emitted e endpoint method status_code duration success error_type w = evs"
  by (simp add: emitted_def)

lemma emitted_starts:
  "\<exists>ms rest. emitted e endpoint method status_code duration success error_type w
      = PutMetricData ''TVShowTracker/API'' ms # rest"
  using emitter_events [of e endpoint "method" status_code duration success error_type w]
  by (auto simp: emitted_def)

lemma track_metrics_except_events:
  assumes g: "read_g e w = ((ep, m, d), w2)"
  shows "\<exists>r. track_metrics_except e x w =
           (r, emitted e ep m (PInt 500) d False (Some (type_name (exn_cls x))) w2,
            w\<lparr>ticks := Suc (Suc (Suc (ticks w)))\<rparr>)"
proof -
  from g have w2: "w2 = w\<lparr>ticks := Suc (Suc (ticks w))\<rparr>"
    by (simp add: read_g_eq)
  obtain r ms rest where
    "send_metrics_to_cloudwatch e ep m (PInt 500) d False (Some (type_name (exn_cls x))) w2
       = (r, PutMetricData ''TVShowTracker/API'' ms # rest, w2\<lparr>ticks := Suc (ticks w2)\<rparr>)"
    using emitter_events by blast
  with g w2 show ?thesis
    by (cases r) (simp_all add: track_metrics_except_def emitted_def)
qed

lemma track_metrics_raises:
  assumes ok: "sink_faults_are_exceptions e"
    and f: "func req w = (Inl x, evs, w1)"
    and exc: "is_Exception (exn_cls x)"
    and g: "read_g e w1 = ((ep, m, d), w2)"
  shows "track_metrics e func req w =
           (Inl x, evs @ emitted e ep m (PInt 500) d False (Some (type_name (exn_cls x))) w2,
            w1\<lparr>ticks := Suc (Suc (Suc (ticks w1)))\<rparr>)"
  using track_metrics_except_ok [OF ok g, of x] f exc
  by (simp add: track_metrics_def)

lemma log_api_call_raises:
  assumes f: "inner req (entry_world e req w) = (Inl x, evs, w4)"
    and exc: "is_Exception (exn_cls x)"
  shows "\<exists>ep m d ts. log_api_call e inner req w =
     (Inl x,
      start_event e req w # evs @
      [LogRecord ERROR ''API_CALL_ERROR''
         [(''endpoint'', PStr ep), (''method'', PStr m), (''error'', PStr (exn_msg x)),
          (''error_type'', PStr (type_name (exn_cls x))), (''duration_ms'', d),
          (''timestamp'', ts)]],
      w4\<lparr>ticks := Suc (Suc (ticks w4))\<rparr>)"
proof -
  obtain st ep m where
    en: "log_api_call_entry e req w = (st, ep, m, start_event e req w, entry_world e req w)"
    using log_api_call_entry_eq by blast
  obtain d ts where
    "log_api_call_except e st ep m x w4 =
     (Inl x,
      [LogRecord ERROR ''API_CALL_ERROR''
         [(''endpoint'', PStr ep), (''method'', PStr m), (''error'', PStr (exn_msg x)),
          (''error_type'', PStr (type_name (exn_cls x))), (''duration_ms'', d),
          (''timestamp'', ts)]],
      w4\<lparr>ticks := Suc (Suc (ticks w4))\<rparr>)"
    using log_api_call_except_eq by blast
  with en f exc show ?thesis
    by (simp add: log_api_call_def)
qed

section \<open>Both stages read the status code the same way\<close>

lemma update_episode_no_json:
  "update_episode e tbl (post_update PNone) w =
     (Inr (PTuple [jsonify [(''error'', PStr ''JSON data is required'')], PInt 400]),
      [LogRecord WARNING ''No JSON data provided'' []], w)"
  by (simp add: update_episode_def post_update_def)


lemma emitter_world:
  "send_metrics_to_cloudwatch e endpoint method status_code duration success error_type w = (r, evs, w')
   \<Longrightarrow> w' = w\<lparr>ticks := Suc (ticks w)\<rparr> \<and> (case r of Inl y \<Rightarrow> \<not> is_Exception (exn_cls y) | Inr u \<Rightarrow> True)"
  using emitter_events [of e endpoint "method" status_code duration success error_type w]
  by auto

lemma track_metrics_returns:
  assumes f: "func req w = (Inr result, evs, w1)"
    and st: "metrics_status_code result = Inr status"
    and g: "read_g e w1 = ((ep, m, d), w2)"
  shows "\<exists>r'. track_metrics e func req w =
           (r', evs @ emitted e ep m status d True None w2, w1\<lparr>ticks := Suc (Suc (Suc (ticks w1)))\<rparr>)"
proof -
  from g have w2: "w2 = w1\<lparr>ticks := Suc (Suc (ticks w1))\<rparr>"
    by (simp add: read_g_eq)
  obtain r2 evs2 w4 where em: "send_metrics_to_cloudwatch e ep m status d True None w2 = (r2, evs2, w4)"
    by (metis prod_cases3)
  from emitter_world [OF em] have w4: "w4 = w2\<lparr>ticks := Suc (ticks w2)\<rparr>"
    and r2: "case r2 of Inl y \<Rightarrow> \<not> is_Exception (exn_cls y) | Inr u \<Rightarrow> True"
    by simp_all
  from emitted_eq [OF em] have ev: "emitted e ep m status d True None w2 = evs2" .
  show ?thesis
  proof (cases r2)
    case (Inl y)
    with r2 have "\<not> is_Exception (exn_cls y)" by simp
    with f st g em Inl w4 w2 ev show ?thesis
      by (simp add: track_metrics_def)
  next
    case (Inr u)
    with f st g em w4 w2 ev show ?thesis
      by (simp add: track_metrics_def)
  qed
qed

lemma log_api_call_returns:
  assumes f: "inner req (entry_world e req w) = (Inr result, evs, w4)"
    and st: "log_status_code result = Inr status"
  shows "\<exists>ep m d ts. log_api_call e inner req w =
     (Inr result,
      start_event e req w # evs @
      [LogRecord INFO ''API_CALL_SUCCESS''
         [(''endpoint'', PStr ep), (''method'', PStr m), (''status_code'', status),
          (''duration_ms'', d), (''timestamp'', ts)]],
      w4\<lparr>ticks := Suc (Suc (ticks w4))\<rparr>)"
proof -
  obtain st0 ep m where
    en: "log_api_call_entry e req w = (st0, ep, m, start_event e req w, entry_world e req w)"
    using log_api_call_entry_eq by blast
  with f st show ?thesis
    by (simp add: log_api_call_def time_time_def utcnow_def)
qed

text \<open>
  C7. When the wrapped function returns a pair of a payload and a status, or a value that is
  no tuple (then the status is 200), both stages read that status: the test of
  \<^verbatim>\<open>log_api_call\<close> and the test of \<^verbatim>\<open>track_metrics\<close> give it, the call logger writes it into
  its \<^verbatim>\<open>API_CALL_SUCCESS\<close> record, and the metrics tracker passes it to the emitter.
\<close>

theorem status_code_is_derived_alike:
  assumes shape: "result = PTuple [payload, status]
                  \<or> ((\<forall>xs. result \<noteq> PTuple xs) \<and> status = PInt 200)"
    and inner: "inner req (entry_world e req w) = (Inr result, evs, w4)"
    and func: "func req' w' = (Inr result, evs', w1)"
  shows "log_status_code result = Inr status
       \<and> metrics_status_code result = Inr status
       \<and> (\<exists>ep m d ts. log_api_call e inner req w =
            (Inr result,
             start_event e req w # evs @
             [LogRecord INFO ''API_CALL_SUCCESS''
                [(''endpoint'', PStr ep), (''method'', PStr m), (''status_code'', status),
                 (''duration_ms'', d), (''timestamp'', ts)]],
             w4\<lparr>ticks := Suc (Suc (ticks w4))\<rparr>))
       \<and> (\<exists>ep m d r'. track_metrics e func req' w' =
            (r',
             evs' @ emitted e ep m status d True None (w1\<lparr>ticks := Suc (Suc (ticks w1))\<rparr>),
             w1\<lparr>ticks := Suc (Suc (Suc (ticks w1)))\<rparr>))"
proof -
  from shape have l: "log_status_code result = Inr status"
    by (cases result) (auto simp: log_status_code_def)
  from shape have t: "metrics_status_code result = Inr status"
    by (cases result) (auto simp: metrics_status_code_def)
  obtain ep m d where g: "read_g e w1 = ((ep, m, d), w1\<lparr>ticks := Suc (Suc (ticks w1))\<rparr>)"
    by (simp add: read_g_eq)
  from l t log_api_call_returns [where inner = inner and req = req, OF inner l]
    track_metrics_returns [where func = func and req = req', OF func t g]
  show ?thesis by blast
qed

theorem status_code_is_derived_alike_witness:
  "update_episode sink_working mem_table (post_update PNone)
      (entry_world sink_working (post_update PNone) world0)
     = (Inr (PTuple [jsonify [(''error'', PStr ''JSON data is required'')], PInt 400]),
        [LogRecord WARNING ''No JSON data provided'' []],
        entry_world sink_working (post_update PNone) world0)
   \<and> log_status_code (PTuple [jsonify [(''error'', PStr ''JSON data is required'')], PInt 400])
       = Inr (PInt 400)
   \<and> metrics_status_code (PTuple [jsonify [(''error'', PStr ''JSON data is required'')], PInt 400])
       = Inr (PInt 400)
   \<and> (\<exists>ep m d ts. log_api_call sink_working (update_episode sink_working mem_table)
                        (post_update PNone) world0 =
            (Inr (PTuple [jsonify [(''error'', PStr ''JSON data is required'')], PInt 400]),
             [start_event sink_working (post_update PNone) world0,
              LogRecord WARNING ''No JSON data provided'' [],
              LogRecord INFO ''API_CALL_SUCCESS''
                [(''endpoint'', PStr ep), (''method'', PStr m), (''status_code'', PInt 400),
                 (''duration_ms'', d), (''timestamp'', ts)]],
             (entry_world sink_working (post_update PNone) world0)
               \<lparr>ticks := Suc (Suc (ticks (entry_world sink_working (post_update PNone) world0)))\<rparr>))
   \<and> (\<exists>ep m d r'. track_metrics sink_working (update_episode sink_working mem_table)
                        (post_update PNone) world0 =
            (r',
             LogRecord WARNING ''No JSON data provided'' []
               # emitted sink_working ep m (PInt 400) d True None
                   (world0\<lparr>ticks := Suc (Suc (ticks world0))\<rparr>),
             world0\<lparr>ticks := Suc (Suc (Suc (ticks world0)))\<rparr>))"
proof -
  let ?r = "PTuple [jsonify [(''error'', PStr ''JSON data is required'')], PInt 400]"
  have sh: "?r = PTuple [jsonify [(''error'', PStr ''JSON data is required'')], PInt 400]
            \<or> ((\<forall>xs. ?r \<noteq> PTuple xs) \<and> PInt 400 = PInt 200)"
    by simp
  from status_code_is_derived_alike [where result = ?r and status = "PInt 400"
      and inner = "update_episode sink_working mem_table" and req = "post_update PNone"
      and e = sink_working and w = world0
      and func = "update_episode sink_working mem_table" and req' = "post_update PNone"
      and w' = world0,
      OF sh update_episode_no_json update_episode_no_json]
    update_episode_no_json [of sink_working mem_table "entry_world sink_working (post_update PNone) world0"]
  show ?thesis by auto
qed


section \<open>The order of the events\<close>

lemma log_api_call_passes:
  assumes f: "inner req (entry_world e req w) = (Inl x, evs, w4)"
    and exc: "\<not> is_Exception (exn_cls x)"
  shows "log_api_call e inner req w = (Inl x, start_event e req w # evs, w4)"
proof -
  obtain st0 ep m where
    en: "log_api_call_entry e req w = (st0, ep, m, start_event e req w, entry_world e req w)"
    using log_api_call_entry_eq by blast
  with f exc show ?thesis
    by (simp add: log_api_call_def)
qed

lemma track_metrics_events:
  assumes f: "func req w = (r, evs, w1)"
  shows "\<exists>r' tail w'. track_metrics e func req w = (r', evs @ tail, w')
     \<and> (if (\<exists>x. r = Inl x \<and> \<not> is_Exception (exn_cls x)) then tail = [] \<and> r' = r
         else (\<exists>ms rest. tail = PutMetricData ''TVShowTracker/API'' ms # rest))"
proof (cases r)
  case (Inl x)
  show ?thesis
  proof (cases "is_Exception (exn_cls x)")
    case True
    obtain ep m d where g: "read_g e w1 = ((ep, m, d), w1\<lparr>ticks := Suc (Suc (ticks w1))\<rparr>)"
      by (simp add: read_g_eq)
    from track_metrics_except_events [OF g, of x] obtain r' where
      "track_metrics_except e x w1 =
           (r', emitted e ep m (PInt 500) d False (Some (type_name (exn_cls x)))
                  (w1\<lparr>ticks := Suc (Suc (ticks w1))\<rparr>),
            w1\<lparr>ticks := Suc (Suc (Suc (ticks w1)))\<rparr>)"
      by blast
    with f Inl True have "track_metrics e func req w =
        (r', evs @ emitted e ep m (PInt 500) d False (Some (type_name (exn_cls x)))
                  (w1\<lparr>ticks := Suc (Suc (ticks w1))\<rparr>),
            w1\<lparr>ticks := Suc (Suc (Suc (ticks w1)))\<rparr>)"
      by (simp add: track_metrics_def)
    with emitted_starts [of e ep m "PInt 500" d False "Some (type_name (exn_cls x))"
        "w1\<lparr>ticks := Suc (Suc (ticks w1))\<rparr>"] Inl True
    show ?thesis by auto
  next
    case False
    with f Inl have "track_metrics e func req w = (Inl x, evs @ [], w1)"
      by (simp add: track_metrics_def)
    with Inl False show ?thesis
      by (intro exI [where x = "Inl x"] exI [where x = "[]"] exI [where x = w1]) auto
  qed
next
  case (Inr result)
  let ?w3 = "w1\<lparr>ticks := Suc (Suc (ticks w1))\<rparr>"
  obtain ep m d where g: "read_g e w1 = ((ep, m, d), ?w3)"
    by (simp add: read_g_eq)
  show ?thesis
  proof (cases "metrics_status_code result")
    case (Inl x)
    obtain ep' m' d' where g': "read_g e ?w3 = ((ep', m', d'), ?w3\<lparr>ticks := Suc (Suc (ticks ?w3))\<rparr>)"
      by (simp add: read_g_eq)
    from track_metrics_except_events [OF g', of x] obtain r' where
      "track_metrics_except e x ?w3 =
           (r', emitted e ep' m' (PInt 500) d' False (Some (type_name (exn_cls x)))
                  (?w3\<lparr>ticks := Suc (Suc (ticks ?w3))\<rparr>),
            ?w3\<lparr>ticks := Suc (Suc (Suc (ticks ?w3)))\<rparr>)"
      by blast
    with f Inr Inl g have "track_metrics e func req w =
        (r', evs @ emitted e ep' m' (PInt 500) d' False (Some (type_name (exn_cls x)))
                  (?w3\<lparr>ticks := Suc (Suc (ticks ?w3))\<rparr>),
            ?w3\<lparr>ticks := Suc (Suc (Suc (ticks ?w3)))\<rparr>)"
      by (simp add: track_metrics_def)
    with emitted_starts [of e ep' m' "PInt 500" d' False "Some (type_name (exn_cls x))"
        "?w3\<lparr>ticks := Suc (Suc (ticks ?w3))\<rparr>"] \<open>r = Inr result\<close>
    show ?thesis by auto
  next
    case (Inr status)
    from track_metrics_returns [where func = func and req = req, OF f [unfolded \<open>r = Inr result\<close>] Inr g]
      emitted_starts [of e ep m status d True None ?w3] \<open>r = Inr result\<close>
    show ?thesis by auto
  qed
qed

text \<open>
  C8. The events of a fully wrapped handler are the \<^verbatim>\<open>API_CALL_START\<close> record, then all
  events of the handler, then whatever the two stages add. Metric data is put only in that
  last part, after the handler has returned or raised, and it is put there unless the handler
  raised something that is no \<^verbatim>\<open>Exception\<close>, which neither stage handles.
\<close>

theorem start_log_precedes_emission:
  assumes f: "func req (entry_world e req w) = (r, evs, w1)"
  shows "\<exists>fields tail.
      start_event e req w = LogRecord INFO ''API_CALL_START'' fields
    \<and> fst (snd (instrumented e func req w)) = start_event e req w # evs @ tail
    \<and> (if (\<exists>x. r = Inl x \<and> \<not> is_Exception (exn_cls x)) then tail = []
        else (\<exists>ms rest. tail = PutMetricData ''TVShowTracker/API'' ms # rest))"
proof -
  have st: "\<exists>fields. start_event e req w = LogRecord INFO ''API_CALL_START'' fields"
    by (simp add: start_event_def log_api_call_entry_def time_time_def utcnow_def Let_def)
  from track_metrics_events [where func = func and req = req and e = e, OF f] obtain r' tail w' where
    t: "track_metrics e func req (entry_world e req w) = (r', evs @ tail, w')"
    and tl: "if (\<exists>x. r = Inl x \<and> \<not> is_Exception (exn_cls x)) then tail = [] \<and> r' = r
         else (\<exists>ms rest. tail = PutMetricData ''TVShowTracker/API'' ms # rest)"
    by blast
  show ?thesis
  proof (cases "\<exists>x. r = Inl x \<and> \<not> is_Exception (exn_cls x)")
    case True
    then obtain x where x: "r = Inl x" "\<not> is_Exception (exn_cls x)" by blast
    with tl t have "track_metrics e func req (entry_world e req w) = (Inl x, evs, w')"
      by auto
    from log_api_call_passes [where inner = "track_metrics e func" and req = req, OF this x(2)]
    have "fst (snd (instrumented e func req w)) = start_event e req w # evs @ []"
      by (simp add: instrumented_def)
    with st True show ?thesis by auto
  next
    case False
    with tl obtain ms rest where tail: "tail = PutMetricData ''TVShowTracker/API'' ms # rest"
      by auto
    from log_api_call_ok [where inner = "track_metrics e func" and req = req, OF t] obtain tail' where
      "fst (snd (instrumented e func req w)) = start_event e req w # (evs @ tail) @ tail'"
      by (auto simp: instrumented_def)
    then have "fst (snd (instrumented e func req w))
        = start_event e req w # evs @ (PutMetricData ''TVShowTracker/API'' ms # rest @ tail')"
      by (simp add: tail)
    with st False show ?thesis by auto
  qed
qed


theorem start_log_precedes_emission_witness:
  "update_episode sink_unreachable mem_table (post_update PNone)
      (entry_world sink_unreachable (post_update PNone) world0)
     = (Inr (PTuple [jsonify [(''error'', PStr ''JSON data is required'')], PInt 400]),
        [LogRecord WARNING ''No JSON data provided'' []],
        entry_world sink_unreachable (post_update PNone) world0)
   \<and> (\<exists>fields ms rest.
        fst (snd (instrumented sink_unreachable (update_episode sink_unreachable mem_table)
                    (post_update PNone) world0))
          = LogRecord INFO ''API_CALL_START'' fields
            # LogRecord WARNING ''No JSON data provided'' []
            # PutMetricData ''TVShowTracker/API'' ms # rest)"
proof -
  from start_log_precedes_emission [where func = "update_episode sink_unreachable mem_table"
      and req = "post_update PNone" and e = sink_unreachable and w = world0,
      OF update_episode_no_json]
    update_episode_no_json [of sink_unreachable mem_table
      "entry_world sink_unreachable (post_update PNone) world0"]
  show ?thesis by auto
qed


section \<open>A failure of the handler passes through both stages\<close>

lemma emitted_failure:
  assumes ok: "sink_faults_are_exceptions e"
  shows "\<exists>lg. emitted e ep m status_code d False (Some tn) w =
     [PutMetricData ''TVShowTracker/API''
        [Metric ''RequestCount''
           ([Dimension ''Endpoint'' (Lit ep), Dimension ''Method'' (Lit m),
             Dimension ''StatusCode'' (Str_of status_code)]
            @ (if tn \<noteq> [] then [Dimension ''ErrorType'' (Lit tn)] else []))
           1 ''Count'' (clock e (ticks w)),
         Metric ''ResponseTime''
           ([Dimension ''Endpoint'' (Lit ep), Dimension ''Method'' (Lit m),
             Dimension ''StatusCode'' (Str_of status_code)]
            @ (if tn \<noteq> [] then [Dimension ''ErrorType'' (Lit tn)] else []))
           (d * 1000) ''Milliseconds'' (clock e (ticks w)),
         Metric ''ErrorCount''
           ([Dimension ''Endpoint'' (Lit ep), Dimension ''Method'' (Lit m),
             Dimension ''StatusCode'' (Str_of status_code)]
            @ (if tn \<noteq> [] then [Dimension ''ErrorType'' (Lit tn)] else []))
           1 ''Count'' (clock e (ticks w))],
      lg]"
  using ok
  by (auto simp: emitted_def send_metrics_to_cloudwatch_def utcnow_def
      sink_faults_are_exceptions_def Let_def split: option.splits)

lemma track_metrics_passes:
  assumes f: "func req w = (Inl x, evs, w1)"
    and exc: "\<not> is_Exception (exn_cls x)"
  shows "track_metrics e func req w = (Inl x, evs, w1)"
  using f exc by (simp add: track_metrics_def)

text \<open>
  C6. Let the wrapped handler raise \<open>x\<close>, with a telemetry sink that fails with faults only.
  If \<open>x\<close> is an instance of \<^verbatim>\<open>Exception\<close>, the metrics tracker puts one sample and raises
  \<open>x\<close> again: the sample counts the request, its response time and one error (no success),
  each under the dimensions endpoint, method, status code 500 and the name of the type of
  \<open>x\<close>; the call logger around it then logs \<^verbatim>\<open>API_CALL_ERROR\<close> with the message and the
  type name of \<open>x\<close> and raises \<open>x\<close> again. If \<open>x\<close> is no instance of \<^verbatim>\<open>Exception\<close>, both
  stages let it pass, \<open>x\<close> itself, and add nothing: no sample and no error record.
\<close>

theorem handler_exception_is_reraised:
  assumes ok: "sink_faults_are_exceptions e"
    and f: "func req (entry_world e req w) = (Inl x, evs, w1)"
  shows "if is_Exception (exn_cls x) then
      (\<exists>ep m d lg ep' m' d' ts.
          read_g e w1 = ((ep, m, d), w1\<lparr>ticks := Suc (Suc (ticks w1))\<rparr>)
        \<and> track_metrics e func req (entry_world e req w) =
            (Inl x,
             evs @
             [PutMetricData ''TVShowTracker/API''
                [Metric ''RequestCount''
                   ([Dimension ''Endpoint'' (Lit ep), Dimension ''Method'' (Lit m),
                     Dimension ''StatusCode'' (Str_of (PInt 500))]
                    @ (if type_name (exn_cls x) \<noteq> []
                       then [Dimension ''ErrorType'' (Lit (type_name (exn_cls x)))] else []))
                   1 ''Count'' (clock e (Suc (Suc (ticks w1)))),
                 Metric ''ResponseTime''
                   ([Dimension ''Endpoint'' (Lit ep), Dimension ''Method'' (Lit m),
                     Dimension ''StatusCode'' (Str_of (PInt 500))]
                    @ (if type_name (exn_cls x) \<noteq> []
                       then [Dimension ''ErrorType'' (Lit (type_name (exn_cls x)))] else []))
                   (d * 1000) ''Milliseconds'' (clock e (Suc (Suc (ticks w1)))),
                 Metric ''ErrorCount''
                   ([Dimension ''Endpoint'' (Lit ep), Dimension ''Method'' (Lit m),
                     Dimension ''StatusCode'' (Str_of (PInt 500))]
                    @ (if type_name (exn_cls x) \<noteq> []
                       then [Dimension ''ErrorType'' (Lit (type_name (exn_cls x)))] else []))
                   1 ''Count'' (clock e (Suc (Suc (ticks w1))))],
              lg],
             w1\<lparr>ticks := Suc (Suc (Suc (ticks w1)))\<rparr>)
        \<and> instrumented e func req w =
            (Inl x,
             start_event e req w #
             fst (snd (track_metrics e func req (entry_world e req w))) @
             [LogRecord ERROR ''API_CALL_ERROR''
                [(''endpoint'', PStr ep'), (''method'', PStr m'), (''error'', PStr (exn_msg x)),
                 (''error_type'', PStr (type_name (exn_cls x))), (''duration_ms'', d'),
                 (''timestamp'', ts)]],
             w1\<lparr>ticks := Suc (Suc (Suc (Suc (Suc (ticks w1)))))\<rparr>))
    else track_metrics e func req (entry_world e req w) = (Inl x, evs, w1)
       \<and> instrumented e func req w = (Inl x, start_event e req w # evs, w1)"
proof (cases "is_Exception (exn_cls x)")
  case True
  let ?w2 = "w1\<lparr>ticks := Suc (Suc (ticks w1))\<rparr>"
  obtain ep m d where g: "read_g e w1 = ((ep, m, d), ?w2)"
    by (simp add: read_g_eq)
  let ?em = "emitted e ep m (PInt 500) d False (Some (type_name (exn_cls x))) ?w2"
  have t: "track_metrics e func req (entry_world e req w) =
           (Inl x, evs @ ?em, w1\<lparr>ticks := Suc (Suc (Suc (ticks w1)))\<rparr>)"
    using ok f True g by (rule track_metrics_raises)
  from emitted_failure [OF ok, of ep m "PInt 500" d "type_name (exn_cls x)" ?w2]
  obtain lg where em: "?em =
     [PutMetricData ''TVShowTracker/API''
        [Metric ''RequestCount''
           ([Dimension ''Endpoint'' (Lit ep), Dimension ''Method'' (Lit m),
             Dimension ''StatusCode'' (Str_of (PInt 500))]
            @ (if type_name (exn_cls x) \<noteq> []
               then [Dimension ''ErrorType'' (Lit (type_name (exn_cls x)))] else []))
           1 ''Count'' (clock e (Suc (Suc (ticks w1)))),
         Metric ''ResponseTime''
           ([Dimension ''Endpoint'' (Lit ep), Dimension ''Method'' (Lit m),
             Dimension ''StatusCode'' (Str_of (PInt 500))]
            @ (if type_name (exn_cls x) \<noteq> []
               then [Dimension ''ErrorType'' (Lit (type_name (exn_cls x)))] else []))
           (d * 1000) ''Milliseconds'' (clock e (Suc (Suc (ticks w1)))),
         Metric ''ErrorCount''
           ([Dimension ''Endpoint'' (Lit ep), Dimension ''Method'' (Lit m),
             Dimension ''StatusCode'' (Str_of (PInt 500))]
            @ (if type_name (exn_cls x) \<noteq> []
               then [Dimension ''ErrorType'' (Lit (type_name (exn_cls x)))] else []))
           1 ''Count'' (clock e (Suc (Suc (ticks w1))))],
      lg]"
    by auto
  from log_api_call_raises [where inner = "track_metrics e func" and req = req and e = e
      and w = w and x = x and evs = "evs @ ?em", OF t True]
  obtain ep' m' d' ts where
    i: "instrumented e func req w =
        (Inl x,
         start_event e req w # (evs @ ?em) @
         [LogRecord ERROR ''API_CALL_ERROR''
            [(''endpoint'', PStr ep'), (''method'', PStr m'), (''error'', PStr (exn_msg x)),
             (''error_type'', PStr (type_name (exn_cls x))), (''duration_ms'', d'),
             (''timestamp'', ts)]],
         w1\<lparr>ticks := Suc (Suc (Suc (Suc (Suc (ticks w1)))))\<rparr>)"
    by (auto simp: instrumented_def)
  have i': "instrumented e func req w =
        (Inl x,
         start_event e req w # fst (snd (track_metrics e func req (entry_world e req w))) @
         [LogRecord ERROR ''API_CALL_ERROR''
            [(''endpoint'', PStr ep'), (''method'', PStr m'), (''error'', PStr (exn_msg x)),
             (''error_type'', PStr (type_name (exn_cls x))), (''duration_ms'', d'),
             (''timestamp'', ts)]],
         w1\<lparr>ticks := Suc (Suc (Suc (Suc (Suc (ticks w1)))))\<rparr>)"
    using i t by simp
  have t': "track_metrics e func req (entry_world e req w) =
            (Inl x,
             evs @
             [PutMetricData ''TVShowTracker/API''
                [Metric ''RequestCount''
                   ([Dimension ''Endpoint'' (Lit ep), Dimension ''Method'' (Lit m),
                     Dimension ''StatusCode'' (Str_of (PInt 500))]
                    @ (if type_name (exn_cls x) \<noteq> []
                       then [Dimension ''ErrorType'' (Lit (type_name (exn_cls x)))] else []))
                   1 ''Count'' (clock e (Suc (Suc (ticks w1)))),
                 Metric ''ResponseTime''
                   ([Dimension ''Endpoint'' (Lit ep), Dimension ''Method'' (Lit m),
                     Dimension ''StatusCode'' (Str_of (PInt 500))]
                    @ (if type_name (exn_cls x) \<noteq> []
                       then [Dimension ''ErrorType'' (Lit (type_name (exn_cls x)))] else []))
                   (d * 1000) ''Milliseconds'' (clock e (Suc (Suc (ticks w1)))),
                 Metric ''ErrorCount''
                   ([Dimension ''Endpoint'' (Lit ep), Dimension ''Method'' (Lit m),
                     Dimension ''StatusCode'' (Str_of (PInt 500))]
                    @ (if type_name (exn_cls x) \<noteq> []
                       then [Dimension ''ErrorType'' (Lit (type_name (exn_cls x)))] else []))
                   1 ''Count'' (clock e (Suc (Suc (ticks w1))))],
              lg],
             w1\<lparr>ticks := Suc (Suc (Suc (ticks w1)))\<rparr>)"
    using t em by simp
  have "\<exists>ep m d lg ep' m' d' ts.
          read_g e w1 = ((ep, m, d), w1\<lparr>ticks := Suc (Suc (ticks w1))\<rparr>)
        \<and> track_metrics e func req (entry_world e req w) =
            (Inl x,
             evs @
             [PutMetricData ''TVShowTracker/API''
                [Metric ''RequestCount''
                   ([Dimension ''Endpoint'' (Lit ep), Dimension ''Method'' (Lit m),
                     Dimension ''StatusCode'' (Str_of (PInt 500))]
                    @ (if type_name (exn_cls x) \<noteq> []
                       then [Dimension ''ErrorType'' (Lit (type_name (exn_cls x)))] else []))
                   1 ''Count'' (clock e (Suc (Suc (ticks w1)))),
                 Metric ''ResponseTime''
                   ([Dimension ''Endpoint'' (Lit ep), Dimension ''Method'' (Lit m),
                     Dimension ''StatusCode'' (Str_of (PInt 500))]
                    @ (if type_name (exn_cls x) \<noteq> []
                       then [Dimension ''ErrorType'' (Lit (type_name (exn_cls x)))] else []))
                   (d * 1000) ''Milliseconds'' (clock e (Suc (Suc (ticks w1)))),
                 Metric ''ErrorCount''
                   ([Dimension ''Endpoint'' (Lit ep), Dimension ''Method'' (Lit m),
                     Dimension ''StatusCode'' (Str_of (PInt 500))]
                    @ (if type_name (exn_cls x) \<noteq> []
                       then [Dimension ''ErrorType'' (Lit (type_name (exn_cls x)))] else []))
                   1 ''Count'' (clock e (Suc (Suc (ticks w1))))],
              lg],
             w1\<lparr>ticks := Suc (Suc (Suc (ticks w1)))\<rparr>)
        \<and> instrumented e func req w =
            (Inl x,
             start_event e req w #
             fst (snd (track_metrics e func req (entry_world e req w))) @
             [LogRecord ERROR ''API_CALL_ERROR''
                [(''endpoint'', PStr ep'), (''method'', PStr m'), (''error'', PStr (exn_msg x)),
                 (''error_type'', PStr (type_name (exn_cls x))), (''duration_ms'', d'),
                 (''timestamp'', ts)]],
             w1\<lparr>ticks := Suc (Suc (Suc (Suc (Suc (ticks w1)))))\<rparr>)"
    using g t' i' by (intro exI conjI) assumption+
  with True show ?thesis by (simp only: if_True)
next
  case False
  have t: "track_metrics e func req (entry_world e req w) = (Inl x, evs, w1)"
    using f False by (rule track_metrics_passes)
  from log_api_call_passes [where inner = "track_metrics e func" and req = req, OF t False]
  have "instrumented e func req w = (Inl x, start_event e req w # evs, w1)"
    by (simp add: instrumented_def)
  with t False show ?thesis by (simp only: if_False simp_thms)
qed

text \<open>A body that is a JSON list makes \<^verbatim>\<open>update_episode\<close> raise \<^verbatim>\<open>AttributeError\<close>.\<close>

theorem handler_exception_is_reraised_witness:
  "sink_faults_are_exceptions sink_unreachable
   \<and> update_episode sink_unreachable mem_table (post_update (PList [PInt 1]))
        (entry_world sink_unreachable (post_update (PList [PInt 1])) world0)
       = (Inl (Exn AttributeError ''object has no attribute get''), [],
          entry_world sink_unreachable (post_update (PList [PInt 1])) world0)
   \<and> fst (instrumented sink_unreachable (update_episode sink_unreachable mem_table)
            (post_update (PList [PInt 1])) world0)
       = Inl (Exn AttributeError ''object has no attribute get'')
   \<and> (\<exists>ep m d ts lg.
         fst (snd (track_metrics sink_unreachable (update_episode sink_unreachable mem_table)
                     (post_update (PList [PInt 1]))
                     (entry_world sink_unreachable (post_update (PList [PInt 1])) world0)))
         = [PutMetricData ''TVShowTracker/API''
              [Metric ''RequestCount''
                 [Dimension ''Endpoint'' (Lit ep), Dimension ''Method'' (Lit m),
                  Dimension ''StatusCode'' (Str_of (PInt 500)),
                  Dimension ''ErrorType'' (Lit ''AttributeError'')]
                 1 ''Count'' ts,
               Metric ''ResponseTime''
                 [Dimension ''Endpoint'' (Lit ep), Dimension ''Method'' (Lit m),
                  Dimension ''StatusCode'' (Str_of (PInt 500)),
                  Dimension ''ErrorType'' (Lit ''AttributeError'')]
                 (d * 1000) ''Milliseconds'' ts,
               Metric ''ErrorCount''
                 [Dimension ''Endpoint'' (Lit ep), Dimension ''Method'' (Lit m),
                  Dimension ''StatusCode'' (Str_of (PInt 500)),
                  Dimension ''ErrorType'' (Lit ''AttributeError'')]
                 1 ''Count'' ts],
            lg])"
proof -
  have ok: "sink_faults_are_exceptions sink_unreachable"
    by (simp add: sink_faults_are_exceptions_def sink_unreachable_def)
  have f: "update_episode sink_unreachable mem_table (post_update (PList [PInt 1]))
        (entry_world sink_unreachable (post_update (PList [PInt 1])) world0)
       = (Inl (Exn AttributeError ''object has no attribute get''), [],
          entry_world sink_unreachable (post_update (PList [PInt 1])) world0)"
    by (simp add: update_episode_def post_update_def)
  from handler_exception_is_reraised [where e = sink_unreachable
      and x = "Exn AttributeError ''object has no attribute get''"
      and func = "update_episode sink_unreachable mem_table"
      and req = "post_update (PList [PInt 1])" and w = world0 and evs = "[]"
      and ?w1.0 = "entry_world sink_unreachable (post_update (PList [PInt 1])) world0",
      OF ok f] ok f
  show ?thesis by auto
qed


text \<open>
  An interrupt that reaches \<^verbatim>\<open>show_episode\<close> while the store call blocks leaves the chain
  as it is, after the start record alone: no error record is logged and no sample is put.
\<close>

theorem interrupt_is_neither_logged_nor_measured:
  "instrumented sink_working (show_episode interrupted_table)
     (get_request ''api.show_episode'' [(''username'', ''john_doe''), (''tv_show'', ''Breaking Bad'')])
     world0
   = (Inl (Exn (BaseException_only ''KeyboardInterrupt'') []),
      [LogRecord INFO ''API_CALL_START''
         [(''endpoint'', PStr ''api.show_episode''), (''method'', PStr ''GET''),
          (''user_agent'', PStr ''unknown''), (''timestamp'', PStamp 1)]],
      world0\<lparr>flask_g := \<lparr>g_start_time = Some 0, g_endpoint = Some ''api.show_episode'',
                            g_method = Some ''GET''\<rparr>,
             ticks := 2\<rparr>)"
  by (simp add: instrumented_def log_api_call_def log_api_call_entry_def track_metrics_def
      show_episode_def except_clauses_def args_get_def get_request_def interrupted_table_def
      time_time_def utcnow_def world0_def sink_working_def Let_def)


section \<open>The view functions\<close>

text \<open>
  C1. Loading \<^verbatim>\<open>infra/api.py\<close> fails: its import names \<^verbatim>\<open>send_http_metrics\<close>, which
  \<^verbatim>\<open>utils/decorator.py\<close> does not define, and each of the four view functions is written
  under three decorators, the third being that name.
\<close>

theorem send_http_metrics_is_not_defined:
  "load_api = Inl (Exn ImportError ''cannot import name send_http_metrics'')
   \<and> map snd view_decorators = replicate 4 [''log_api_call'', ''track_metrics'', ''send_http_metrics'']
   \<and> ''send_http_metrics'' \<notin> set decorator_names"
  by (simp add: load_api_def api_imports_def decorator_names_def view_decorators_def numeral_eq_Suc)

text \<open>
  What \<^verbatim>\<open>update_episode\<close> does refuse: a season or an episode on which \<^verbatim>\<open>int()\<close> raises
  \<^verbatim>\<open>ValueError\<close> or \<^verbatim>\<open>TypeError\<close>, or whose integer value is below 1, is answered 400, and
  the world, the store included, stays as it was.
\<close>

lemma int_except_rejects:
  "exn_cls x = ValueError \<or> exn_cls x = TypeError \<Longrightarrow>
   \<exists>payload evs. int_except x season episode w = (Inr (PTuple [payload, PInt 400]), evs, w)"
  by (auto simp: int_except_def)

lemma update_episode_rejects:
  assumes body: "get_json req = Inr (PDict d)"
    and bad: "(case py_int (dict_get d ''season'') of
                 Inl x \<Rightarrow> exn_cls x = ValueError \<or> exn_cls x = TypeError
               | Inr s \<Rightarrow>
                   (case py_int (dict_get d ''episode'') of
                      Inl x \<Rightarrow> exn_cls x = ValueError \<or> exn_cls x = TypeError
                    | Inr ep \<Rightarrow> s < 1 \<or> ep < 1))"
  shows "\<exists>payload evs. update_episode e tbl req w = (Inr (PTuple [payload, PInt 400]), evs, w)"
proof (cases "d \<noteq> [] \<and> truthy (dict_get d ''username'') \<and> truthy (dict_get d ''tv_show'')
              \<and> dict_get d ''season'' \<noteq> PNone \<and> dict_get d ''episode'' \<noteq> PNone")
  case False
  with body show ?thesis
    by (auto simp: update_episode_def Let_def)
next
  case True
  show ?thesis
  proof (cases "py_int (dict_get d ''season'')")
    case (Inl x)
    with bad have "exn_cls x = ValueError \<or> exn_cls x = TypeError" by simp
    from int_except_rejects [OF this] body True Inl show ?thesis
      by (simp add: update_episode_def Let_def)
  next
    case (Inr s)
    note s = Inr
    show ?thesis
    proof (cases "py_int (dict_get d ''episode'')")
      case (Inl x)
      with bad s have "exn_cls x = ValueError \<or> exn_cls x = TypeError" by simp
      from int_except_rejects [OF this] body True s Inl show ?thesis
        by (simp add: update_episode_def Let_def)
    next
      case (Inr ep)
      with bad s have "s < 1 \<or> ep < 1" by simp
      with body True s Inr show ?thesis
        by (auto simp: update_episode_def Let_def)
    qed
  qed
qed

text \<open>
  C3. A fractional season is not refused: \<^verbatim>\<open>int(3.5)\<close> is 3, so the request is answered
  201 and the record is written with season 3.
\<close>

theorem fractional_season_is_accepted:
  "update_episode sink_working mem_table
     (post_update (breaking_bad (PFloat (Finite (7 / 2))) (PInt 1))) world0
   = (Inr (PTuple [jsonify [(''message'', PStr ''Episode updated successfully''),
                     (''username'', PStr ''john_doe''), (''tv_show'', PStr ''Breaking Bad''),
                     (''season'', PInt 3), (''episode'', PInt 1)], PInt 201]),
      [LogRecord INFO ''Updated episode data for {username} - {tv_show} S{season}E{episode}''
         [(''username'', PStr ''john_doe''), (''tv_show'', PStr ''Breaking Bad''),
          (''season'', PInt 3), (''episode'', PInt 1)]],
      world0\<lparr>ticks := 1,
        db := [((PStr ''john_doe'', PStr ''Breaking Bad''),
                [(''username'', PStr ''john_doe''), (''tv_show'', PStr ''Breaking Bad''),
                 (''season'', PInt 3), (''episode'', PInt 1), (''last_updated'', PStamp 0)])]\<rparr>)"
proof -
  have "\<lfloor>7 / 2 :: rat\<rfloor> = 3"
    by (rule floor_unique) simp_all
  then show ?thesis
    by (simp add: update_episode_def post_update_def breaking_bad_def dict_get_def trunc_def
        mem_table_def utcnow_def world0_def sink_working_def Let_def)
qed


text \<open>
  C4. For a valid request (non-empty username and show title, integer season and episode
  from 1 up) that the store accepts, \<^verbatim>\<open>update_episode\<close> answers 201, having put the item
  with exactly these integers and with \<^verbatim>\<open>last_updated\<close> the reading of the clock taken
  during the call. \<^verbatim>\<open>show_episode\<close> for the same pair then returns the attributes of the
  item that \<^verbatim>\<open>get_item\<close> hands back for this key, each as it is handed back: nothing
  converts them.
\<close>

theorem upsert_then_get:
  assumes valid: "username \<noteq> []" "tv_show \<noteq> []" "1 \<le> season" "1 \<le> episode"
    and body: "get_json req = Inr (PDict d)"
      "map_of d ''username'' = Some (PStr username)" "map_of d ''tv_show'' = Some (PStr tv_show)"
      "map_of d ''season'' = Some (PInt season)" "map_of d ''episode'' = Some (PInt episode)"
    and accepted: "put_item tbl
        [(''username'', PStr username), (''tv_show'', PStr tv_show), (''season'', PInt season),
         (''episode'', PInt episode), (''last_updated'', PStamp (clock e (ticks w)))] (db w) = Inr s'"
    and query: "map_of (args req') ''username'' = Some username"
      "map_of (args req') ''tv_show'' = Some tv_show"
    and rd: "get_item tbl [(''username'', PStr username), (''tv_show'', PStr tv_show)] s' = Inr resp"
      "Item resp = Some it"
    and attrs: "map_of it ''username'' = Some u" "map_of it ''tv_show'' = Some t"
      "map_of it ''season'' = Some sv" "map_of it ''episode'' = Some ev"
  shows "(\<exists>evs. update_episode e tbl req w =
           (Inr (PTuple [jsonify [(''message'', PStr ''Episode updated successfully''),
                           (''username'', PStr username), (''tv_show'', PStr tv_show),
                           (''season'', PInt season), (''episode'', PInt episode)], PInt 201]),
            evs, w\<lparr>ticks := Suc (ticks w), db := s'\<rparr>))
       \<and> (\<forall>w'. db w' = s' \<longrightarrow>
            (\<exists>evs'. show_episode tbl req' w' =
               (Inr (jsonify [(''username'', u), (''tv_show'', t), (''season'', sv),
                       (''episode'', ev),
                       (''last_updated'', dict_get_default it ''last_updated'' (PStr []))]),
                evs', w')))"
proof -
  have d: "d \<noteq> []"
    using body(2) by auto
  have g: "dict_get d ''username'' = PStr username" "dict_get d ''tv_show'' = PStr tv_show"
    "dict_get d ''season'' = PInt season" "dict_get d ''episode'' = PInt episode"
    by (simp_all add: dict_get_def body)
  have ok: "\<not> (season < 1 \<or> episode < 1)"
    using valid by simp
  have now: "utcnow e w = (clock e (ticks w), w\<lparr>ticks := Suc (ticks w)\<rparr>)"
    by (simp add: utcnow_def)
  have upd: "\<exists>evs. update_episode e tbl req w =
       (Inr (PTuple [jsonify [(''message'', PStr ''Episode updated successfully''),
                       (''username'', PStr username), (''tv_show'', PStr tv_show),
                       (''season'', PInt season), (''episode'', PInt episode)], PInt 201]),
        evs, w\<lparr>ticks := Suc (ticks w), db := s'\<rparr>)"
    unfolding update_episode_def
    by (simp add: body(1) d g ok now accepted valid(1,2) Let_def)
  have a: "args_get req' ''username'' = PStr username" "args_get req' ''tv_show'' = PStr tv_show"
    by (simp_all add: args_get_def query)
  have gi: "getitems it [''username'', ''tv_show'', ''season'', ''episode'']
      = Inr [(''username'', u), (''tv_show'', t), (''season'', sv), (''episode'', ev)]"
    by (simp add: getitem_def attrs)
  have shw: "\<exists>evs'. show_episode tbl req' w' =
               (Inr (jsonify [(''username'', u), (''tv_show'', t), (''season'', sv),
                       (''episode'', ev),
                       (''last_updated'', dict_get_default it ''last_updated'' (PStr []))]),
                evs', w')" if "db w' = s'" for w'
    unfolding show_episode_def
    using that by (simp add: a valid(1,2) rd gi Let_def del: getitems.simps)
  from upd shw show ?thesis by blast
qed

text \<open>
  On the table as the boto3 resource presents it, the integers 3 and 7 written at clock
  reading 5 come back as Decimals, with the stamp of reading 5.
\<close>

theorem upsert_then_get_witness:
  "put_item dynamodb_table
        [(''username'', PStr ''john_doe''), (''tv_show'', PStr ''Breaking Bad''), (''season'', PInt 3),
         (''episode'', PInt 7),
         (''last_updated'', PStamp (clock sink_working (ticks (world0\<lparr>ticks := 5\<rparr>))))]
        (db (world0\<lparr>ticks := 5\<rparr>))
     = Inr [((PStr ''john_doe'', PStr ''Breaking Bad''),
             [(''username'', PStr ''john_doe''), (''tv_show'', PStr ''Breaking Bad''),
              (''season'', PInt 3), (''episode'', PInt 7), (''last_updated'', PStamp 5)])]
   \<and> get_item dynamodb_table [(''username'', PStr ''john_doe''), (''tv_show'', PStr ''Breaking Bad'')]
        [((PStr ''john_doe'', PStr ''Breaking Bad''),
             [(''username'', PStr ''john_doe''), (''tv_show'', PStr ''Breaking Bad''),
              (''season'', PInt 3), (''episode'', PInt 7), (''last_updated'', PStamp 5)])]
     = Inr \<lparr>Item = Some [(''username'', PStr ''john_doe''), (''tv_show'', PStr ''Breaking Bad''),
                         (''season'', PDecimal 3), (''episode'', PDecimal 7),
                         (''last_updated'', PStamp 5)],
            Items = None, LastEvaluatedKey = None\<rparr>
   \<and> (\<exists>evs. update_episode sink_working dynamodb_table
               (post_update (breaking_bad (PInt 3) (PInt 7))) (world0\<lparr>ticks := 5\<rparr>) =
           (Inr (PTuple [jsonify [(''message'', PStr ''Episode updated successfully''),
                           (''username'', PStr ''john_doe''), (''tv_show'', PStr ''Breaking Bad''),
                           (''season'', PInt 3), (''episode'', PInt 7)], PInt 201]),
            evs,
            world0\<lparr>ticks := 6,
              db := [((PStr ''john_doe'', PStr ''Breaking Bad''),
                      [(''username'', PStr ''john_doe''), (''tv_show'', PStr ''Breaking Bad''),
                       (''season'', PInt 3), (''episode'', PInt 7),
                       (''last_updated'', PStamp 5)])]\<rparr>))
   \<and> (\<exists>evs'. show_episode dynamodb_table
               (get_request ''api.show_episode''
                  [(''username'', ''john_doe''), (''tv_show'', ''Breaking Bad'')])
               (world0\<lparr>ticks := 6,
                  db := [((PStr ''john_doe'', PStr ''Breaking Bad''),
                          [(''username'', PStr ''john_doe''), (''tv_show'', PStr ''Breaking Bad''),
                           (''season'', PInt 3), (''episode'', PInt 7),
                           (''last_updated'', PStamp 5)])]\<rparr>) =
           (Inr (jsonify [(''username'', PStr ''john_doe''), (''tv_show'', PStr ''Breaking Bad''),
                   (''season'', PDecimal 3), (''episode'', PDecimal 7),
                   (''last_updated'', PStamp 5)]),
            evs',
            world0\<lparr>ticks := 6,
              db := [((PStr ''john_doe'', PStr ''Breaking Bad''),
                      [(''username'', PStr ''john_doe''), (''tv_show'', PStr ''Breaking Bad''),
                       (''season'', PInt 3), (''episode'', PInt 7),
                       (''last_updated'', PStamp 5)])]\<rparr>))"
proof -
  let ?s = "[((PStr ''john_doe'', PStr ''Breaking Bad''),
             [(''username'', PStr ''john_doe''), (''tv_show'', PStr ''Breaking Bad''),
              (''season'', PInt 3), (''episode'', PInt 7), (''last_updated'', PStamp 5)])]"
  let ?it = "[(''username'', PStr ''john_doe''), (''tv_show'', PStr ''Breaking Bad''),
              (''season'', PDecimal 3), (''episode'', PDecimal 7), (''last_updated'', PStamp 5)]"
  let ?w = "world0\<lparr>ticks := 5\<rparr>"
  let ?q = "get_request ''api.show_episode'' [(''username'', ''john_doe''), (''tv_show'', ''Breaking Bad'')]"
  have p: "put_item dynamodb_table
        [(''username'', PStr ''john_doe''), (''tv_show'', PStr ''Breaking Bad''), (''season'', PInt 3),
         (''episode'', PInt 7), (''last_updated'', PStamp (clock sink_working (ticks ?w)))] (db ?w)
     = Inr ?s"
    by (simp add: dynamodb_table_def is_float_def world0_def sink_working_def)
  have g: "get_item dynamodb_table [(''username'', PStr ''john_doe''), (''tv_show'', PStr ''Breaking Bad'')] ?s
     = Inr \<lparr>Item = Some ?it, Items = None, LastEvaluatedKey = None\<rparr>"
    by (simp add: dynamodb_table_def as_read_def)
  have th: "(\<exists>evs. update_episode sink_working dynamodb_table
               (post_update (breaking_bad (PInt 3) (PInt 7))) ?w =
           (Inr (PTuple [jsonify [(''message'', PStr ''Episode updated successfully''),
                           (''username'', PStr ''john_doe''), (''tv_show'', PStr ''Breaking Bad''),
                           (''season'', PInt 3), (''episode'', PInt 7)], PInt 201]),
            evs, ?w\<lparr>ticks := Suc (ticks ?w), db := ?s\<rparr>))
       \<and> (\<forall>w'. db w' = ?s \<longrightarrow>
            (\<exists>evs'. show_episode dynamodb_table ?q w' =
               (Inr (jsonify [(''username'', PStr ''john_doe''), (''tv_show'', PStr ''Breaking Bad''),
                       (''season'', PDecimal 3), (''episode'', PDecimal 7),
                       (''last_updated'', dict_get_default ?it ''last_updated'' (PStr []))]),
                evs', w')))"
    by (rule upsert_then_get [where tbl = dynamodb_table and e = sink_working and w = ?w
          and username = "''john_doe''" and tv_show = "''Breaking Bad''" and season = 3
          and episode = 7 and s' = ?s and it = ?it
          and resp = "\<lparr>Item = Some ?it, Items = None, LastEvaluatedKey = None\<rparr>"
          and d = "[(''username'', PStr ''john_doe''), (''tv_show'', PStr ''Breaking Bad''),
                     (''season'', PInt 3), (''episode'', PInt 7)]"])
      (simp_all add: post_update_def breaking_bad_def get_request_def dynamodb_table_def
        is_float_def as_read_def world0_def sink_working_def)
  have w6: "?w\<lparr>ticks := Suc (ticks ?w), db := ?s\<rparr> = world0\<lparr>ticks := 6, db := ?s\<rparr>"
    by (simp add: world0_def)
  have lu: "dict_get_default ?it ''last_updated'' (PStr []) = PStamp 5"
    by (simp add: dict_get_default_def)
  from th have a: "\<exists>evs. update_episode sink_working dynamodb_table
               (post_update (breaking_bad (PInt 3) (PInt 7))) ?w =
           (Inr (PTuple [jsonify [(''message'', PStr ''Episode updated successfully''),
                           (''username'', PStr ''john_doe''), (''tv_show'', PStr ''Breaking Bad''),
                           (''season'', PInt 3), (''episode'', PInt 7)], PInt 201]),
            evs, world0\<lparr>ticks := 6, db := ?s\<rparr>)"
    by (simp only: w6)
  from th have "db (world0\<lparr>ticks := 6, db := ?s\<rparr>) = ?s \<longrightarrow>
            (\<exists>evs'. show_episode dynamodb_table ?q (world0\<lparr>ticks := 6, db := ?s\<rparr>) =
               (Inr (jsonify [(''username'', PStr ''john_doe''), (''tv_show'', PStr ''Breaking Bad''),
                       (''season'', PDecimal 3), (''episode'', PDecimal 7),
                       (''last_updated'', dict_get_default ?it ''last_updated'' (PStr []))]),
                evs', world0\<lparr>ticks := 6, db := ?s\<rparr>))"
    by blast
  then have b: "\<exists>evs'. show_episode dynamodb_table ?q (world0\<lparr>ticks := 6, db := ?s\<rparr>) =
               (Inr (jsonify [(''username'', PStr ''john_doe''), (''tv_show'', PStr ''Breaking Bad''),
                       (''season'', PDecimal 3), (''episode'', PDecimal 7),
                       (''last_updated'', PStamp 5)]),
                evs', world0\<lparr>ticks := 6, db := ?s\<rparr>)"
    by (simp add: lu)
  from p g a b show ?thesis
    by (simp add: sink_working_def world0_def)
qed

lemma str_int_3: "str_int 3 = ''3''" and str_int_7: "str_int 7 = ''7''"
  by (simp_all add: str_int_def digit_chars.simps)


text \<open>
  So the record returned does not hold the values written: after season 3, episode 7 the
  response holds the Decimals 3 and 7, and its JSON body the strings \<^verbatim>\<open>"3"\<close> and \<^verbatim>\<open>"7"\<close>.
\<close>

theorem upsert_then_get_counterexample:
  "update_episode sink_working dynamodb_table (post_update (breaking_bad (PInt 3) (PInt 7))) world0
     = (Inr (PTuple [jsonify [(''message'', PStr ''Episode updated successfully''),
                       (''username'', PStr ''john_doe''), (''tv_show'', PStr ''Breaking Bad''),
                       (''season'', PInt 3), (''episode'', PInt 7)], PInt 201]),
        [LogRecord INFO ''Updated episode data for {username} - {tv_show} S{season}E{episode}''
           [(''username'', PStr ''john_doe''), (''tv_show'', PStr ''Breaking Bad''),
            (''season'', PInt 3), (''episode'', PInt 7)]],
        world0\<lparr>ticks := 1,
          db := [((PStr ''john_doe'', PStr ''Breaking Bad''),
                  [(''username'', PStr ''john_doe''), (''tv_show'', PStr ''Breaking Bad''),
                   (''season'', PInt 3), (''episode'', PInt 7), (''last_updated'', PStamp 0)])]\<rparr>)
   \<and> fst (show_episode dynamodb_table
            (get_request ''api.show_episode''
               [(''username'', ''john_doe''), (''tv_show'', ''Breaking Bad'')])
            (world0\<lparr>ticks := 1,
               db := [((PStr ''john_doe'', PStr ''Breaking Bad''),
                       [(''username'', PStr ''john_doe''), (''tv_show'', PStr ''Breaking Bad''),
                        (''season'', PInt 3), (''episode'', PInt 7),
                        (''last_updated'', PStamp 0)])]\<rparr>))
     = Inr (jsonify [(''username'', PStr ''john_doe''), (''tv_show'', PStr ''Breaking Bad''),
                     (''season'', PDecimal 3), (''episode'', PDecimal 7),
                     (''last_updated'', PStamp 0)])
   \<and> to_json (PDict [(''username'', PStr ''john_doe''), (''tv_show'', PStr ''Breaking Bad''),
                      (''season'', PDecimal 3), (''episode'', PDecimal 7),
                      (''last_updated'', PStamp 0)])
     = PDict [(''username'', PStr ''john_doe''), (''tv_show'', PStr ''Breaking Bad''),
              (''season'', PStr ''3''), (''episode'', PStr ''7''), (''last_updated'', PStamp 0)]
   \<and> PStr ''3'' \<noteq> PInt 3 \<and> PStr ''7'' \<noteq> PInt 7"
proof -
  have u: "update_episode sink_working dynamodb_table (post_update (breaking_bad (PInt 3) (PInt 7))) world0
     = (Inr (PTuple [jsonify [(''message'', PStr ''Episode updated successfully''),
                       (''username'', PStr ''john_doe''), (''tv_show'', PStr ''Breaking Bad''),
                       (''season'', PInt 3), (''episode'', PInt 7)], PInt 201]),
        [LogRecord INFO ''Updated episode data for {username} - {tv_show} S{season}E{episode}''
           [(''username'', PStr ''john_doe''), (''tv_show'', PStr ''Breaking Bad''),
            (''season'', PInt 3), (''episode'', PInt 7)]],
        world0\<lparr>ticks := 1,
          db := [((PStr ''john_doe'', PStr ''Breaking Bad''),
                  [(''username'', PStr ''john_doe''), (''tv_show'', PStr ''Breaking Bad''),
                   (''season'', PInt 3), (''episode'', PInt 7), (''last_updated'', PStamp 0)])]\<rparr>)"
    by (simp add: update_episode_def post_update_def breaking_bad_def dict_get_def
        dynamodb_table_def is_float_def utcnow_def world0_def sink_working_def Let_def)
  have s: "fst (show_episode dynamodb_table
            (get_request ''api.show_episode''
               [(''username'', ''john_doe''), (''tv_show'', ''Breaking Bad'')])
            (world0\<lparr>ticks := 1,
               db := [((PStr ''john_doe'', PStr ''Breaking Bad''),
                       [(''username'', PStr ''john_doe''), (''tv_show'', PStr ''Breaking Bad''),
                        (''season'', PInt 3), (''episode'', PInt 7),
                        (''last_updated'', PStamp 0)])]\<rparr>))
     = Inr (jsonify [(''username'', PStr ''john_doe''), (''tv_show'', PStr ''Breaking Bad''),
                     (''season'', PDecimal 3), (''episode'', PDecimal 7),
                     (''last_updated'', PStamp 0)])"
    by (simp add: show_episode_def args_get_def get_request_def dynamodb_table_def as_read_def
        getitem_def dict_get_default_def world0_def Let_def)
  have j: "to_json (PDict [(''username'', PStr ''john_doe''), (''tv_show'', PStr ''Breaking Bad''),
                      (''season'', PDecimal 3), (''episode'', PDecimal 7),
                      (''last_updated'', PStamp 0)])
     = PDict [(''username'', PStr ''john_doe''), (''tv_show'', PStr ''Breaking Bad''),
              (''season'', PStr ''3''), (''episode'', PStr ''7''), (''last_updated'', PStamp 0)]"
    by (simp add: str_int_3 str_int_7)
  from u s j show ?thesis by simp
qed


lemma getitems_record:
  "list_all (\<lambda>k. map_of it k \<noteq> None) ks \<Longrightarrow> getitems it ks = Inr (map (\<lambda>k. (k, dict_get it k)) ks)"
  by (induction ks) (auto simp: getitem_def dict_get_def)

lemma show_all_loop_ok:
  "list_all is_record items \<Longrightarrow> show_all_loop items acc = Inr (acc @ map entry items)"
proof (induction items arbitrary: acc)
  case Nil
  then show ?case by simp
next
  case (Cons it items)
  from Cons.prems have it: "is_record it" and rest: "list_all is_record items"
    by simp_all
  from it have r: "list_all (\<lambda>k. map_of it k \<noteq> None) record_keys"
    by (simp only: is_record_def)
  have "getitems it [''username'', ''tv_show'', ''season'', ''episode''] = Inr (map (\<lambda>k. (k, dict_get it k)) record_keys)"
    using getitems_record [OF r] by (simp add: record_keys_def)
  with Cons.IH [OF rest] show ?case
    by (simp add: entry_def)
qed

lemma pagination_ok:
  "pages_from tbl s r ps \<Longrightarrow> list_all well_formed_page ps \<Longrightarrow>
   pagination tbl s r acc = Some (Inr (acc @ concat (map (\<lambda>p. map entry (page_items p)) ps)))"
proof (induction ps arbitrary: r acc)
  case Nil
  then show ?case by (subst pagination.simps) simp
next
  case (Cons p ps)
  from Cons.prems(1) obtain k where k: "LastEvaluatedKey r = Some k" and sc: "scan tbl (Some k) s = Inr p"
    and rest: "pages_from tbl s p ps"
    by (auto split: option.splits)
  from Cons.prems(2) have wfp: "well_formed_page p" and wfs: "list_all well_formed_page ps"
    by simp_all
  from wfp obtain its where its: "Items p = Some its" and wf: "list_all is_record its"
    by (cases "Items p") (simp_all add: well_formed_page_def)
  have loop: "show_all_loop its acc = Inr (acc @ map entry its)"
    using wf by (rule show_all_loop_ok)
  have "pagination tbl s r acc = pagination tbl s p (acc @ map entry its)"
    by (subst pagination.simps) (simp add: k sc its loop)
  also have "\<dots> = Some (Inr ((acc @ map entry its) @ concat (map (\<lambda>p. map entry (page_items p)) ps)))"
    using rest wfs by (rule Cons.IH)
  finally show ?case by (simp add: page_items_def its)
qed

text \<open>
  C5. When the scan returns the page \<open>p\<close> and then, following the continuation markers, the
  pages \<open>ps\<close>, the last of them without a marker, and every page holds Episode Records,
  \<^verbatim>\<open>show_all\<close> returns, and its entries are the records of all these pages, page after
  page, each record of each page once; \<^verbatim>\<open>total_entries\<close> is their number.
\<close>

theorem show_all_returns_every_page:
  assumes first: "scan tbl None (db w) = Inr p"
    and rest: "pages_from tbl (db w) p ps"
    and wf: "list_all well_formed_page (p # ps)"
  shows "\<exists>evs. show_all tbl req w =
           Some (Inr (jsonify
                   [(''entries'', PList (concat (map (\<lambda>r. map entry (page_items r)) (p # ps)))),
                    (''total_entries'', PInt (int (length (concat (map page_items (p # ps))))))]),
                 evs, w)"
proof -
  from wf have wf1: "well_formed_page p" and wfs: "list_all well_formed_page ps"
    by simp_all
  from wf1 obtain its where its: "Items p = Some its" and wfp: "list_all is_record its"
    by (cases "Items p") (simp_all add: well_formed_page_def)
  have pi: "page_items p = its"
    by (simp add: page_items_def its)
  have loop: "show_all_loop its [] = Inr (map entry its)"
    using show_all_loop_ok [OF wfp, of "[]"] by simp
  have pag: "pagination tbl (db w) p (map entry its)
      = Some (Inr (map entry its @ concat (map (\<lambda>r. map entry (page_items r)) ps)))"
    using rest wfs by (rule pagination_ok)
  have len: "length (concat (map (\<lambda>r. map entry (page_items r)) ps)) = length (concat (map page_items ps))"
    by (induction ps) simp_all
  show ?thesis
    by (simp add: show_all_def first its loop pag pi len)
qed



theorem show_all_returns_every_page_witness:
  "scan paged_table None (db three_pages) = Inr (page 0)
   \<and> pages_from paged_table (db three_pages) (page 0) [page 1, page 2]
   \<and> list_all well_formed_page [page 0, page 1, page 2]
   \<and> (\<exists>evs. show_all paged_table (get_request ''api.show_all'' []) three_pages =
         Some (Inr (jsonify
                 [(''entries'', PList (map entry (concat (db three_pages)))),
                  (''total_entries'', PInt 4)]),
               evs, three_pages))"
proof -
  have a: "scan paged_table None (db three_pages) = Inr (page 0)"
    by (simp add: paged_table_def three_pages_def page_def)
  have b: "pages_from paged_table (db three_pages) (page 0) [page 1, page 2]"
    by (simp add: paged_table_def three_pages_def page_def)
  have c: "list_all well_formed_page [page 0, page 1, page 2]"
    by (simp add: well_formed_page_def is_record_def record_keys_def three_pages_def page_def episode_item_def)
  from show_all_returns_every_page [OF a b c, of "get_request ''api.show_all'' []"] a b c
  show ?thesis
    by (simp add: page_items_def page_def three_pages_def)
qed


text \<open>
  C9. For a non-empty username for which the query returns no items, \<^verbatim>\<open>show_user\<close> returns
  a bare response (no status beside it, hence 200, which is also the status both decorators
  record) with an empty list of shows and a count of 0.
\<close>

theorem unknown_user_is_empty_success:
  assumes "map_of (args req) ''username'' = Some u" and "u \<noteq> []"
    and "query_eq tbl (PStr u) (db w) = Inr resp" and "Items resp = Some []"
  shows "(\<exists>evs. show_user tbl req w =
            (Inr (jsonify [(''username'', PStr u), (''shows'', PList []), (''total_shows'', PInt 0)]),
             evs, w))
       \<and> log_status_code (jsonify [(''username'', PStr u), (''shows'', PList []),
            (''total_shows'', PInt 0)]) = Inr (PInt 200)
       \<and> metrics_status_code (jsonify [(''username'', PStr u), (''shows'', PList []),
            (''total_shows'', PInt 0)]) = Inr (PInt 200)"
  using assms
  by (simp add: show_user_def args_get_def log_status_code_def metrics_status_code_def jsonify_def Let_def)


theorem unknown_user_is_empty_success_witness:
  "map_of (args (get_request ''api.show_user'' [(''username'', ''nobody'')])) ''username'' = Some ''nobody''
   \<and> ''nobody'' \<noteq> []
   \<and> query_eq mem_table (PStr ''nobody'') (db world0) = Inr \<lparr>Item = None, Items = Some [], LastEvaluatedKey = None\<rparr>
   \<and> (\<exists>evs. show_user mem_table (get_request ''api.show_user'' [(''username'', ''nobody'')]) world0 =
            (Inr (jsonify [(''username'', PStr ''nobody''), (''shows'', PList []), (''total_shows'', PInt 0)]),
             evs, world0))"
proof -
  have a: "map_of (args (get_request ''api.show_user'' [(''username'', ''nobody'')])) ''username'' = Some ''nobody''"
    by (simp add: get_request_def)
  have b: "''nobody'' \<noteq> []" by simp
  have c: "query_eq mem_table (PStr ''nobody'') (db world0) = Inr \<lparr>Item = None, Items = Some [], LastEvaluatedKey = None\<rparr>"
    by (simp add: mem_table_def world0_def)
  from unknown_user_is_empty_success [OF a b c] a b c show ?thesis by simp
qed


lemma except_clauses_status:
  "except_clauses fname x evs w = (Inr r, evs', w') \<Longrightarrow> log_status_code r = Inr (PInt 500)"
  by (auto simp: except_clauses_def log_status_code_def split: if_splits)

text \<open>
  C10. In every response with status 200 that \<^verbatim>\<open>show_user\<close> or \<^verbatim>\<open>show_all\<close> returns, the
  count is the length of the list beside it.
\<close>

theorem count_equals_length:
  "(show_user tbl req w = (Inr r, evs, w') \<and> log_status_code r = Inr (PInt 200) \<longrightarrow>
      (\<exists>u shows. r = jsonify [(''username'', u), (''shows'', PList shows),
                               (''total_shows'', PInt (int (length shows)))]))
   \<and> (show_all tbl req2 w2 = Some (Inr r2, evs2, w2') \<and> log_status_code r2 = Inr (PInt 200) \<longrightarrow>
      (\<exists>entries. r2 = jsonify [(''entries'', PList entries),
                               (''total_entries'', PInt (int (length entries)))]))"
proof (intro conjI impI)
  assume "show_user tbl req w = (Inr r, evs, w') \<and> log_status_code r = Inr (PInt 200)"
  then show "\<exists>u shows. r = jsonify [(''username'', u), (''shows'', PList shows),
                               (''total_shows'', PInt (int (length shows)))]"
    by (auto simp: show_user_def Let_def log_status_code_def
        split: if_splits sum.splits option.splits dest!: except_clauses_status)
next
  assume "show_all tbl req2 w2 = Some (Inr r2, evs2, w2') \<and> log_status_code r2 = Inr (PInt 200)"
  then show "\<exists>entries. r2 = jsonify [(''entries'', PList entries),
                               (''total_entries'', PInt (int (length entries)))]"
    by (auto simp: show_all_def
        split: sum.splits option.splits dest!: except_clauses_status)
qed



theorem count_equals_length_witness:
  "show_user mem_table (get_request ''api.show_user'' [(''username'', ''john_doe'')]) world1
     = (Inr (jsonify [(''username'', PStr ''john_doe''),
              (''shows'', PList [PDict [(''tv_show'', PStr ''Breaking Bad''), (''season'', PInt 3),
                                       (''episode'', PInt 7), (''last_updated'', PStamp 0)]]),
              (''total_shows'', PInt 1)]),
        [LogRecord INFO ''Retrieved {len(shows)} shows for user {username}''
           [(''len(shows)'', PInt 1), (''username'', PStr ''john_doe'')]],
        world1)
   \<and> show_all mem_table (get_request ''api.show_all'' []) world1
     = Some (Inr (jsonify [(''entries'', PList [entry (episode_item ''john_doe'' ''Breaking Bad'' 3 7)]),
                   (''total_entries'', PInt 1)]),
             [LogRecord INFO ''Retrieved all {len(entries)} entries from table''
                [(''len(entries)'', PInt 1)]],
             world1)
   \<and> (\<exists>u shows. jsonify [(''username'', PStr ''john_doe''),
              (''shows'', PList [PDict [(''tv_show'', PStr ''Breaking Bad''), (''season'', PInt 3),
                                       (''episode'', PInt 7), (''last_updated'', PStamp 0)]]),
              (''total_shows'', PInt 1)]
         = jsonify [(''username'', u), (''shows'', PList shows),
                    (''total_shows'', PInt (int (length shows)))])
   \<and> (\<exists>entries. jsonify [(''entries'', PList [entry (episode_item ''john_doe'' ''Breaking Bad'' 3 7)]),
                   (''total_entries'', PInt 1)]
         = jsonify [(''entries'', PList entries), (''total_entries'', PInt (int (length entries)))])"
proof -
  let ?r = "jsonify [(''username'', PStr ''john_doe''),
              (''shows'', PList [PDict [(''tv_show'', PStr ''Breaking Bad''), (''season'', PInt 3),
                                       (''episode'', PInt 7), (''last_updated'', PStamp 0)]]),
              (''total_shows'', PInt 1)]"
  let ?r2 = "jsonify [(''entries'', PList [entry (episode_item ''john_doe'' ''Breaking Bad'' 3 7)]),
                   (''total_entries'', PInt 1)]"
  have a: "show_user mem_table (get_request ''api.show_user'' [(''username'', ''john_doe'')]) world1
     = (Inr ?r,
        [LogRecord INFO ''Retrieved {len(shows)} shows for user {username}''
           [(''len(shows)'', PInt 1), (''username'', PStr ''john_doe'')]],
        world1)"
    by (simp add: show_user_def args_get_def get_request_def mem_table_def world1_def world0_def
        episode_item_def getitem_def dict_get_default_def Let_def)
  have pg: "pagination mem_table (db world1)
       \<lparr>Item = None, Items = Some (map snd (db world1)), LastEvaluatedKey = None\<rparr>
       [entry (episode_item ''john_doe'' ''Breaking Bad'' 3 7)]
     = Some (Inr [entry (episode_item ''john_doe'' ''Breaking Bad'' 3 7)])"
    by (subst pagination.simps) simp
  have b: "show_all mem_table (get_request ''api.show_all'' []) world1
     = Some (Inr ?r2,
             [LogRecord INFO ''Retrieved all {len(entries)} entries from table''
                [(''len(entries)'', PInt 1)]],
             world1)"
    using pg
    by (simp add: show_all_def mem_table_def world1_def world0_def entry_def record_keys_def
        dict_get_def episode_item_def getitem_def dict_get_default_def)
  have s: "log_status_code ?r = Inr (PInt 200)" "log_status_code ?r2 = Inr (PInt 200)"
    by (simp_all add: log_status_code_def jsonify_def)
  from count_equals_length [of mem_table "get_request ''api.show_user'' [(''username'', ''john_doe'')]"
      world1 ?r _ world1 "get_request ''api.show_all'' []" world1 ?r2 _ world1] a b s
  show ?thesis by simp
qed

end
